(* ===== verification/Prelude.thy ===== *)
theory Prelude
  imports Complex_Main
begin

text \<open>
  Shared vocabulary of the development: the rule collections the component theories
  extend, \<open>Math.round\<close> on the finite numbers the colour
  arithmetic produces, and the string helpers that stand for JavaScript's \<open>startsWith\<close> and the
  truthiness test \<open>!x\<close> on optional strings. Everything here is executable.
\<close>

named_theorems js_simps "evaluation rules of the JavaScript number model"
named_theorems card_simps "unfolding rules of the card's handlers"

section \<open>Math.round on finite numbers\<close>

text \<open>
  \<open>Math.round(x)\<close> returns the integer nearest to \<open>x\<close>, halves going towards
  \<open>+\<infinity>\<close>: \<open>\<lfloor>x + 1/2\<rfloor>\<close>. Signed zero is not distinguished.
\<close>

definition math_round :: "real \<Rightarrow> int" where
  "math_round x = \<lfloor>x + 1 / 2\<rfloor>"

section \<open>Strings\<close>

text \<open>\<open>s.startsWith(p)\<close>.\<close>

definition starts_with :: "string \<Rightarrow> string \<Rightarrow> bool" where
  "starts_with s p \<longleftrightarrow> take (length p) s = p"

text \<open>\<open>s.slice(i, j)\<close> for \<open>0 \<le> i \<le> j\<close>: the characters from index \<open>i\<close> up to
  \<open>j\<close>, cut at the end of the string.\<close>

definition js_slice :: "string \<Rightarrow> nat \<Rightarrow> nat \<Rightarrow> string" where
  "js_slice s i j = take (j - i) (drop i s)"

text \<open>
  An optional string field of a configuration object: \<open>None\<close> is \<open>undefined\<close>.
  JavaScript's truthiness test fails on \<open>undefined\<close> and on the empty string.
\<close>

definition js_truthy_str :: "string option \<Rightarrow> bool" where
  "js_truthy_str v = (case v of None \<Rightarrow> False | Some s \<Rightarrow> s \<noteq> [])"

text \<open>\<open>v || d\<close> on an optional string: the default replaces a falsy value.\<close>

definition js_or_str :: "string option \<Rightarrow> string \<Rightarrow> string" where
  "js_or_str v d = (case v of Some s \<Rightarrow> (if s = [] then d else s) | None \<Rightarrow> d)"

text \<open>A destructuring default \<open>{x = d} = obj\<close>: the default replaces only \<open>undefined\<close>.\<close>

definition dflt :: "'a option \<Rightarrow> 'a \<Rightarrow> 'a" where
  "dflt v d = (case v of None \<Rightarrow> d | Some x \<Rightarrow> x)"

section \<open>Lemmas\<close>

lemma math_round_of_int [simp]: "math_round (of_int k) = k"
  by (simp add: math_round_def)

lemma math_round_numeral [simp]: "math_round (numeral n) = numeral n"
  using math_round_of_int [of "numeral n"] by simp

lemma math_round_zero [simp]: "math_round 0 = 0"
  by (simp add: math_round_def)

lemma math_round_mono: "x \<le> y \<Longrightarrow> math_round x \<le> math_round y"
  by (simp add: math_round_def floor_mono)

lemma math_round_error: "\<bar>of_int (math_round x) - x\<bar> \<le> 1 / 2"
  unfolding math_round_def
  using of_int_floor_le [of "x + 1 / 2"] real_of_int_floor_add_one_gt [of "x + 1 / 2"]
  by linarith

text \<open>Rounding keeps a value inside integer bounds: the bound lemma the colour channels use.\<close>

lemma math_round_between:
  assumes "of_int lo \<le> x" and "x \<le> of_int hi"
  shows "lo \<le> math_round x \<and> math_round x \<le> hi"
proof -
  have "math_round (of_int lo) \<le> math_round x" using assms(1) by (rule math_round_mono)
  moreover have "math_round x \<le> math_round (of_int hi)" using assms(2) by (rule math_round_mono)
  ultimately show ?thesis by simp
qed

lemma math_round_byte:
  "0 \<le> x \<Longrightarrow> x \<le> 255 \<Longrightarrow> 0 \<le> math_round x \<and> math_round x \<le> 255"
  using math_round_between [of 0 x 255] by simp

lemma starts_with_append [simp]: "starts_with (p @ s) p"
  by (simp add: starts_with_def)

lemma js_truthy_str_simps [simp]:
  "js_truthy_str None = False" "js_truthy_str (Some s) = (s \<noteq> [])"
  by (simp_all add: js_truthy_str_def)

lemma js_or_str_simps [simp]:
  "js_or_str None d = d" "js_or_str (Some s) d = (if s = [] then d else s)"
  by (simp_all add: js_or_str_def)

lemma dflt_simps [simp]: "dflt None d = d" "dflt (Some x) d = x"
  by (simp_all add: dflt_def)

end
