(* ===== verification/JsRuntime.thy ===== *)
theory JsRuntime
  imports Prelude
begin

text \<open>
  The part of the JavaScript runtime the card's arithmetic depends on: IEEE-754 numbers
  with their non-finite values (\<open>NaN\<close>, \<open>\<plusminus>Infinity\<close>), the operators
  \<open>+ - * /\<close>, \<open>Math.abs\<close>, \<open>Math.min\<close>, \<open>Math.max\<close>, \<open>Math.round\<close>,
  the comparisons, the conversion of \<open>undefined\<close> to a number, and the parsers
  \<open>parseFloat\<close> and \<open>parseInt(_, 16)\<close>. Finite values are exact reals: the
  rounding of binary floating point and signed zero are not modelled.
\<close>

section \<open>Numbers\<close>

datatype jsnum = Fin real | PInf | NInf | NaN

fun js_neg :: "jsnum \<Rightarrow> jsnum" where
  "js_neg (Fin a) = Fin (- a)"
| "js_neg PInf = NInf"
| "js_neg NInf = PInf"
| "js_neg NaN = NaN"

fun js_add :: "jsnum \<Rightarrow> jsnum \<Rightarrow> jsnum" where
  "js_add (Fin a) (Fin b) = Fin (a + b)"
| "js_add NaN _ = NaN"
| "js_add _ NaN = NaN"
| "js_add PInf NInf = NaN"
| "js_add NInf PInf = NaN"
| "js_add PInf _ = PInf"
| "js_add NInf _ = NInf"
| "js_add (Fin _) y = y"

definition js_sub :: "jsnum \<Rightarrow> jsnum \<Rightarrow> jsnum" where
  "js_sub x y = js_add x (js_neg y)"

text \<open>The infinity with the sign of a non-zero real.\<close>

definition inf_of_sign :: "real \<Rightarrow> jsnum" where
  "inf_of_sign a = (if 0 < a then PInf else NInf)"

fun js_mul :: "jsnum \<Rightarrow> jsnum \<Rightarrow> jsnum" where
  "js_mul (Fin a) (Fin b) = Fin (a * b)"
| "js_mul NaN _ = NaN"
| "js_mul _ NaN = NaN"
| "js_mul (Fin a) PInf = (if a = 0 then NaN else inf_of_sign a)"
| "js_mul (Fin a) NInf = (if a = 0 then NaN else inf_of_sign (- a))"
| "js_mul PInf (Fin b) = (if b = 0 then NaN else inf_of_sign b)"
| "js_mul NInf (Fin b) = (if b = 0 then NaN else inf_of_sign (- b))"
| "js_mul PInf PInf = PInf"
| "js_mul PInf NInf = NInf"
| "js_mul NInf PInf = NInf"
| "js_mul NInf NInf = PInf"

text \<open>Division by a (positive) zero gives an infinity, \<open>0 / 0\<close> gives \<open>NaN\<close>.\<close>

fun js_div :: "jsnum \<Rightarrow> jsnum \<Rightarrow> jsnum" where
  "js_div (Fin a) (Fin b) =
     (if b = 0 then (if a = 0 then NaN else inf_of_sign a) else Fin (a / b))"
| "js_div NaN _ = NaN"
| "js_div _ NaN = NaN"
| "js_div (Fin a) PInf = Fin 0"
| "js_div (Fin a) NInf = Fin 0"
| "js_div PInf (Fin b) = (if 0 \<le> b then PInf else NInf)"
| "js_div NInf (Fin b) = (if 0 \<le> b then NInf else PInf)"
| "js_div _ _ = NaN"

fun js_abs :: "jsnum \<Rightarrow> jsnum" where
  "js_abs (Fin a) = Fin \<bar>a\<bar>"
| "js_abs NaN = NaN"
| "js_abs _ = PInf"

text \<open>\<open>x < y\<close>: every comparison with \<open>NaN\<close> is false.\<close>

fun js_lt :: "jsnum \<Rightarrow> jsnum \<Rightarrow> bool" where
  "js_lt (Fin a) (Fin b) = (a < b)"
| "js_lt NaN _ = False"
| "js_lt _ NaN = False"
| "js_lt NInf NInf = False"
| "js_lt NInf _ = True"
| "js_lt _ NInf = False"
| "js_lt PInf _ = False"
| "js_lt _ PInf = True"

fun js_le :: "jsnum \<Rightarrow> jsnum \<Rightarrow> bool" where
  "js_le (Fin a) (Fin b) = (a \<le> b)"
| "js_le NaN _ = False"
| "js_le _ NaN = False"
| "js_le NInf _ = True"
| "js_le _ NInf = False"
| "js_le _ PInf = True"
| "js_le PInf _ = False"

text \<open>\<open>Math.min(x, y)\<close> and \<open>Math.max(x, y)\<close>: \<open>NaN\<close> if either argument is.\<close>

fun js_min :: "jsnum \<Rightarrow> jsnum \<Rightarrow> jsnum" where
  "js_min NaN _ = NaN"
| "js_min _ NaN = NaN"
| "js_min x y = (if js_lt y x then y else x)"

fun js_max :: "jsnum \<Rightarrow> jsnum \<Rightarrow> jsnum" where
  "js_max NaN _ = NaN"
| "js_max _ NaN = NaN"
| "js_max x y = (if js_lt x y then y else x)"

fun js_round :: "jsnum \<Rightarrow> jsnum" where
  "js_round (Fin a) = Fin (of_int (math_round a))"
| "js_round x = x"

text \<open>
  Truncation towards zero and the remainder operator \<open>%\<close> on finite numbers:
  \<open>x % y\<close> has the sign of \<open>x\<close> (unlike HOL's \<open>mod\<close>, which floors).
\<close>

definition js_trunc :: "real \<Rightarrow> int" where
  "js_trunc x = (if 0 \<le> x then \<lfloor>x\<rfloor> else \<lceil>x\<rceil>)"

definition js_rem :: "real \<Rightarrow> real \<Rightarrow> real" where
  "js_rem x y = x - y * of_int (js_trunc (x / y))"

text \<open>\<open>ToNumber\<close> of a configuration field that may be \<open>undefined\<close>.\<close>

definition js_of_opt :: "real option \<Rightarrow> jsnum" where
  "js_of_opt v = (case v of None \<Rightarrow> NaN | Some a \<Rightarrow> Fin a)"

section \<open>Characters and digits\<close>

definition js_whitespace :: "char \<Rightarrow> bool" where
  "js_whitespace c \<longleftrightarrow> of_char c = (32::nat) \<or> (9 \<le> (of_char c :: nat) \<and> (of_char c :: nat) \<le> 13)"

definition is_digit :: "char \<Rightarrow> bool" where
  "is_digit c \<longleftrightarrow> 48 \<le> (of_char c :: nat) \<and> (of_char c :: nat) \<le> 57"

definition digit_value :: "char \<Rightarrow> nat" where
  "digit_value c = of_char c - 48"

text \<open>The value of a string of decimal digits, most significant first.\<close>

definition digits_value :: "string \<Rightarrow> nat" where
  "digits_value ds = foldl (\<lambda>acc c. 10 * acc + digit_value c) 0 ds"

definition is_hex_digit :: "char \<Rightarrow> bool" where
  "is_hex_digit c \<longleftrightarrow> is_digit c
     \<or> (97 \<le> (of_char c :: nat) \<and> (of_char c :: nat) \<le> 102)
     \<or> (65 \<le> (of_char c :: nat) \<and> (of_char c :: nat) \<le> 70)"

definition hex_digit_value :: "char \<Rightarrow> nat" where
  "hex_digit_value c =
     (if is_digit c then of_char c - 48
      else if 97 \<le> (of_char c :: nat) then of_char c - 87 else of_char c - 55)"

definition hex_value :: "string \<Rightarrow> nat" where
  "hex_value ds = foldl (\<lambda>acc c. 16 * acc + hex_digit_value c) 0 ds"

section \<open>parseFloat\<close>

text \<open>
  \<open>parseFloat(s)\<close> skips leading white space, reads an optional sign, then the longest
  prefix that is \<open>Infinity\<close> or a decimal literal (digits, an optional fraction, an
  optional exponent); with no digit at all the result is \<open>NaN\<close>. The rest of the
  string is ignored.
\<close>

definition scale10 :: "real \<Rightarrow> int \<Rightarrow> real" where
  "scale10 m e = (if 0 \<le> e then m * 10 ^ nat e else m / 10 ^ nat (- e))"

text \<open>The exponent part: \<open>e\<close> or \<open>E\<close>, an optional sign, at least one digit; else 0.\<close>

definition exponent_part :: "string \<Rightarrow> int" where
  "exponent_part r =
     (case r of
        c # t \<Rightarrow>
          (if c = CHR ''e'' \<or> c = CHR ''E'' then
             (let (sg, u) = (case t of
                               d # v \<Rightarrow> (if d = CHR ''-'' then (-1, v)
                                         else if d = CHR ''+'' then (1, v) else (1, t))
                             | [] \<Rightarrow> (1, t));
                  ds = takeWhile is_digit u
              in if ds = [] then 0 else sg * int (digits_value ds))
           else 0)
      | [] \<Rightarrow> 0)"

definition parse_unsigned :: "string \<Rightarrow> jsnum" where
  "parse_unsigned r =
     (if take 8 r = ''Infinity'' then PInf
      else
        (let d1 = takeWhile is_digit r;
             r1 = dropWhile is_digit r;
             (d2, r2) = (case r1 of
                           c # t \<Rightarrow> (if c = CHR ''.'' then (takeWhile is_digit t, dropWhile is_digit t)
                                     else ([], r1))
                         | [] \<Rightarrow> ([], r1))
         in if d1 = [] \<and> d2 = [] then NaN
            else Fin (scale10 (of_nat (digits_value (d1 @ d2)) / 10 ^ length d2) (exponent_part r2))))"

definition parse_float :: "string \<Rightarrow> jsnum" where
  "parse_float s =
     (let t = dropWhile js_whitespace s in
      case t of
        c # r \<Rightarrow> (if c = CHR ''-'' then js_neg (parse_unsigned r)
                  else if c = CHR ''+'' then parse_unsigned r
                  else parse_unsigned t)
      | [] \<Rightarrow> NaN)"

section \<open>parseInt with radix 16\<close>

text \<open>
  \<open>parseInt(s, 16)\<close>: white space, an optional sign, an optional \<open>0x\<close>/\<open>0X\<close>
  prefix, then the longest prefix of hexadecimal digits; \<open>None\<close> stands for \<open>NaN\<close>.
\<close>

definition parse_int16 :: "string \<Rightarrow> int option" where
  "parse_int16 s =
     (let t = dropWhile js_whitespace s;
          (sg, u) = (case t of
                       c # r \<Rightarrow> (if c = CHR ''-'' then (-1, r)
                                 else if c = CHR ''+'' then (1, r) else (1, t))
                     | [] \<Rightarrow> (1, t));
          v = (case u of
                 c # d # r \<Rightarrow> (if c = CHR ''0'' \<and> (d = CHR ''x'' \<or> d = CHR ''X'') then r else u)
               | _ \<Rightarrow> u);
          ds = takeWhile is_hex_digit v
      in if ds = [] then None else Some (sg * int (hex_value ds)))"

section \<open>Lemmas\<close>

lemma js_rem_nonneg_bounds:
  assumes "0 \<le> x" "0 < y"
  shows "0 \<le> js_rem x y \<and> js_rem x y < y"
proof -
  have q: "0 \<le> x / y" using assms by simp
  have lo: "of_int \<lfloor>x / y\<rfloor> \<le> x / y" and hi: "x / y < of_int \<lfloor>x / y\<rfloor> + 1"
    by (simp_all add: of_int_floor_le real_of_int_floor_add_one_gt)
  have "y * of_int \<lfloor>x / y\<rfloor> \<le> y * (x / y)"
    using lo assms(2) by (intro mult_left_mono) auto
  moreover have "y * (x / y) < y * (of_int \<lfloor>x / y\<rfloor> + 1)"
    using hi assms(2) by (intro mult_strict_left_mono) auto
  ultimately show ?thesis using q assms(2) by (simp add: js_rem_def js_trunc_def algebra_simps)
qed

lemma js_of_opt_simps [simp, js_simps]:
  "js_of_opt None = NaN" "js_of_opt (Some a) = Fin a"
  by (simp_all add: js_of_opt_def)

lemma js_sub_Fin [simp, js_simps]: "js_sub (Fin a) (Fin b) = Fin (a - b)"
  by (simp add: js_sub_def)

lemma js_sub_NaN [simp, js_simps]: "js_sub NaN y = NaN" "js_sub x NaN = NaN"
  by (simp_all add: js_sub_def) (cases x; simp)

lemma js_add_NaN_right [simp, js_simps]: "js_add x NaN = NaN"
  by (cases x) simp_all

lemma js_mul_NaN_right [simp, js_simps]: "js_mul x NaN = NaN"
  by (cases x) simp_all

lemma js_div_Fin_nonzero [js_simps]: "b \<noteq> 0 \<Longrightarrow> js_div (Fin a) (Fin b) = Fin (a / b)"
  by simp

lemma js_min_Fin [simp, js_simps]: "js_min (Fin a) (Fin b) = Fin (min a b)"
  by (simp add: min_def)

lemma js_max_Fin [simp, js_simps]: "js_max (Fin a) (Fin b) = Fin (max a b)"
  by (simp add: max_def)

lemma js_min_max_NaN [simp, js_simps]: "js_min x NaN = NaN" "js_max x NaN = NaN"
  by (cases x; simp)+

end
