(* ===== verification/Hass.thy ===== *)
theory Hass
  imports JsRuntime
begin

text \<open>
  The Home Assistant state bus as the card sees it: the \<open>hass.states\<close> map from entity
  ids to state objects (a state string and the attributes the colour derivation reads),
  and the three service calls the card issues through \<open>hass.callService\<close>. Attribute
  values come from JSON, so they are finite numbers; an attribute that is absent or
  \<open>null\<close> is \<open>None\<close>.
\<close>

record light_attrs =
  brightness :: "real option"
  rgb_color :: "(real \<times> real \<times> real) option"
  hs_color :: "(real \<times> real) option"
  xy_color :: "(real \<times> real) option"
  color_temp :: "real option"

record hass_entity =
  state :: string
  attributes :: light_attrs

type_synonym hass_states = "string \<rightharpoonup> hass_entity"

text \<open>
  \<open>callService('light', 'turn_off', {entity_id})\<close>,
  \<open>callService('light', 'turn_on', {entity_id, brightness_pct})\<close> and
  \<open>callService('input_number', 'set_value', {entity_id, value})\<close>.
\<close>

datatype service_call =
    LightTurnOff string
  | LightTurnOn string jsnum
  | InputNumberSetValue string jsnum

definition no_attrs :: light_attrs where
  "no_attrs = \<lparr>brightness = None, rgb_color = None, hs_color = None, xy_color = None,
     color_temp = None\<rparr>"

end
