(* ===== verification/Config.thy ===== *)
theory Config
  imports Hass
begin

text \<open>
  The card's configuration object (\<open>this.config\<close>), the validation of
  \<open>setConfig\<close>, and the defaults that \<open>render\<close> applies by destructuring. A field
  left out of the YAML is \<open>None\<close> (\<open>undefined\<close>). The defaults of \<open>render\<close>
  replace only \<open>undefined\<close>; \<open>calculateOutputValue\<close> reads the raw fields and
  so does not see them (theory \<open>ValueMapper\<close>).
\<close>

record card_config =
  output_entity :: "string option"
  input_entity :: "string option"
  color_entity :: "string option"
  slider_min :: "real option"
  slider_max :: "real option"
  input_min :: "real option"
  input_max :: "real option"
  step :: "real option"
  name :: "string option"
  unit :: "string option"
  icon :: "string option"
  initial_slider_value :: "real option"
  handle_color :: "string option"
  handle_shadow_color :: "string option"
  slider_color :: "string option"
  slider_background_color :: "string option"

text \<open>Errors the card raises: the two configuration errors of \<open>setConfig\<close> and the
  \<open>TypeError\<close>s of reading a property of \<open>undefined\<close>.\<close>

datatype card_error = MissingOutputEntity | MissingInputEntity | TypeError string

text \<open>An empty configuration: every field \<open>undefined\<close>.\<close>

definition empty_config :: card_config where
  "empty_config = \<lparr>output_entity = None, input_entity = None, color_entity = None,
     slider_min = None, slider_max = None, input_min = None, input_max = None, step = None,
     name = None, unit = None, icon = None, initial_slider_value = None, handle_color = None,
     handle_shadow_color = None, slider_color = None, slider_background_color = None\<rparr>"

text \<open>The configuration of the spec's end-to-end scenario: slider range \<open>[-100, 100]\<close>,
  input range \<open>[0, 100]\<close>, a light as output.\<close>

definition example_config :: card_config where
  "example_config = empty_config\<lparr>output_entity := Some ''light.lamp'',
     input_entity := Some ''sensor.level'', slider_min := Some (-100), slider_max := Some 100,
     input_min := Some 0, input_max := Some 100\<rparr>"

text \<open>The two guards of \<open>setConfig\<close>, in the source's order.\<close>

definition check_config :: "card_config \<Rightarrow> card_error + unit" where
  "check_config cfg =
     (if \<not> js_truthy_str (output_entity cfg) then Inl MissingOutputEntity
      else if \<not> js_truthy_str (input_entity cfg) then Inl MissingInputEntity
      else Inr ())"

definition config_valid :: "card_config \<Rightarrow> bool" where
  "config_valid cfg \<longleftrightarrow> js_truthy_str (output_entity cfg) \<and> js_truthy_str (input_entity cfg)"

text \<open>The values \<open>render\<close> destructures from \<open>this.config\<close>, with its defaults.\<close>

record settings =
  set_slider_min :: real
  set_slider_max :: real
  set_input_min :: real
  set_input_max :: real
  set_step :: real
  set_name :: string
  set_unit :: string
  set_icon :: "string option"
  set_handle_color :: string
  set_handle_shadow_color :: string
  set_slider_color :: string
  set_slider_background_color :: string

definition render_settings :: "card_config \<Rightarrow> settings" where
  "render_settings cfg =
     \<lparr>set_slider_min = dflt (slider_min cfg) (-100),
      set_slider_max = dflt (slider_max cfg) 100,
      set_input_min = dflt (input_min cfg) (-100),
      set_input_max = dflt (input_max cfg) 100,
      set_step = dflt (step cfg) 1,
      set_name = dflt (name cfg) ''Slider'',
      set_unit = dflt (unit cfg) ''%'',
      set_icon = icon cfg,
      set_handle_color = dflt (handle_color cfg) ''#ffffff'',
      set_handle_shadow_color = dflt (handle_shadow_color cfg) ''#1c1c1c'',
      set_slider_color = dflt (slider_color cfg) ''#4473a0'',
      set_slider_background_color = dflt (slider_background_color cfg) ''#323232''\<rparr>"

section \<open>Lemmas\<close>

lemma check_config_Inr_iff: "check_config cfg = Inr () \<longleftrightarrow> config_valid cfg"
  by (simp add: check_config_def config_valid_def)

end
