(* ===== verification/ValueMapper.thy ===== *)
theory ValueMapper
  imports Config
begin

text \<open>
  The value mapper: \<open>calculateOutputValue\<close> (weighted override of the input value by
  the slider deflection) and the write the \<open>change\<close> handler derives from its result
  (turn a light off, set its brightness, or set an \<open>input_number\<close>). The arithmetic is
  on JavaScript numbers (theory \<open>JsRuntime\<close>), because the function reads
  \<open>this.config.slider_max\<close>, \<open>input_min\<close> and \<open>input_max\<close> raw, and those may be
  \<open>undefined\<close>; the input value comes from \<open>parseFloat\<close> and may be \<open>NaN\<close>.
  The abstract contract is \<open>override_spec\<close>: a convex combination of the input value
  and the bound the slider points to, with weight \<open>|s| / slider_max\<close>.
\<close>

section \<open>The implementation\<close>

definition calculateOutputValue :: "card_config \<Rightarrow> real \<Rightarrow> jsnum \<Rightarrow> jsnum" where
  "calculateOutputValue cfg sliderValue inputValue =
     (let weight = js_div (js_abs (Fin sliderValue)) (js_of_opt (slider_max cfg)) in
      if 0 < sliderValue then
        js_add inputValue (js_mul (js_sub (js_of_opt (input_max cfg)) inputValue) weight)
      else if sliderValue < 0 then
        js_sub inputValue (js_mul (js_sub inputValue (js_of_opt (input_min cfg))) weight)
      else inputValue)"

text \<open>The write of the \<open>change\<close> handler for a computed output value.\<close>

definition output_call :: "bool \<Rightarrow> string \<Rightarrow> jsnum \<Rightarrow> service_call" where
  "output_call isLight entity outputValue =
     (if isLight then
        (if js_le outputValue (Fin 0) then LightTurnOff entity
         else LightTurnOn entity (js_min (Fin 100) (js_max (Fin 0) outputValue)))
      else InputNumberSetValue entity outputValue)"

section \<open>The contract\<close>

text \<open>
  The override promised by the spec: the input value moved towards \<open>input_max\<close> (slider
  positive) or \<open>input_min\<close> (slider negative) by the fraction \<open>|s| / slider_max\<close>.
\<close>

definition override_spec :: "real \<Rightarrow> real \<Rightarrow> real \<Rightarrow> real \<Rightarrow> real \<Rightarrow> real" where
  "override_spec smax lo hi s x =
     (1 - \<bar>s\<bar> / smax) * x + (\<bar>s\<bar> / smax) * (if 0 < s then hi else lo)"

section \<open>Lemmas\<close>

lemma weight_Fin [js_simps]:
  "m \<noteq> 0 \<Longrightarrow> js_div (js_abs (Fin s)) (Fin m) = Fin (\<bar>s\<bar> / m)"
  by simp

lemma convex_between:
  fixes w a b lo hi :: real
  assumes "0 \<le> w" "w \<le> 1" "lo \<le> a" "a \<le> hi" "lo \<le> b" "b \<le> hi"
  shows "lo \<le> (1 - w) * a + w * b \<and> (1 - w) * a + w * b \<le> hi"
proof -
  have "(1 - w) * lo \<le> (1 - w) * a" "(1 - w) * a \<le> (1 - w) * hi"
    using assms by (simp_all add: mult_left_mono)
  moreover have "w * lo \<le> w * b" "w * b \<le> w * hi"
    using assms by (simp_all add: mult_left_mono)
  ultimately show ?thesis by (simp add: algebra_simps)
qed

text \<open>The three branches of the implementation on finite numbers.\<close>

lemma calculateOutputValue_pos:
  "0 < s \<Longrightarrow> slider_max cfg = Some m \<Longrightarrow> m \<noteq> 0 \<Longrightarrow> input_max cfg = Some hi \<Longrightarrow>
   calculateOutputValue cfg s (Fin x) = Fin (x + (hi - x) * (s / m))"
  by (simp add: calculateOutputValue_def js_simps)

lemma calculateOutputValue_neg:
  "s < 0 \<Longrightarrow> slider_max cfg = Some m \<Longrightarrow> m \<noteq> 0 \<Longrightarrow> input_min cfg = Some lo \<Longrightarrow>
   calculateOutputValue cfg s (Fin x) = Fin (x - (x - lo) * (- s / m))"
  by (simp add: calculateOutputValue_def js_simps)

lemma calculateOutputValue_Fin:
  assumes "slider_max cfg = Some m" "m \<noteq> 0" "input_min cfg = Some lo" "input_max cfg = Some hi"
  shows "calculateOutputValue cfg s (Fin x) = Fin (override_spec m lo hi s x)"
proof (cases "0 < s")
  case True
  then show ?thesis using assms
    by (simp add: calculateOutputValue_pos override_spec_def field_simps)
next
  case False
  show ?thesis
  proof (cases "s < 0")
    case True
    then show ?thesis using assms
      by (simp add: calculateOutputValue_neg override_spec_def field_simps)
  next
    case False
    with \<open>\<not> 0 < s\<close> have "s = 0" by simp
    then show ?thesis by (simp add: calculateOutputValue_def override_spec_def)
  qed
qed

section \<open>Properties\<close>

text \<open>
  C1. Refinement: on finite inputs, with \<open>slider_max\<close>, \<open>input_min\<close> and
  \<open>input_max\<close> configured and \<open>slider_max \<noteq> 0\<close>, the JavaScript computation returns
  exactly the finite value of the abstract override \<open>override_spec\<close>, in every branch.
\<close>

theorem calculateOutputValue_refines:
  assumes "slider_max cfg = Some m" "m \<noteq> 0" "input_min cfg = Some lo" "input_max cfg = Some hi"
  shows "calculateOutputValue cfg s (Fin x) = Fin (override_spec m lo hi s x)"
  using assms by (rule calculateOutputValue_Fin)

theorem calculateOutputValue_refines_witness:
  "slider_max example_config = Some 100 \<and> (100::real) \<noteq> 0 \<and> input_min example_config = Some 0
   \<and> input_max example_config = Some 100
   \<and> calculateOutputValue example_config 50 (Fin 40) = Fin (override_spec 100 0 100 50 40)"
  using calculateOutputValue_refines [of example_config 100 0 100 50 40]
  by (simp add: example_config_def empty_config_def)

text \<open>
  C10. Neutral position: with the slider at 0 the output is the input value itself, for
  every configuration and every input, \<open>NaN\<close> and the infinities included.
\<close>

theorem calculateOutputValue_neutral: "calculateOutputValue cfg 0 v = v"
  by (simp add: calculateOutputValue_def)

text \<open>
  C11. Full positive deflection: with the slider at \<open>slider_max > 0\<close> the output is
  exactly \<open>input_max\<close>, whatever the (finite) input value.
\<close>

theorem calculateOutputValue_full_positive:
  assumes "slider_max cfg = Some m" "0 < m" "input_max cfg = Some hi"
  shows "calculateOutputValue cfg m (Fin x) = Fin hi"
  using assms by (simp add: calculateOutputValue_pos)

theorem calculateOutputValue_full_positive_witness:
  "slider_max example_config = Some 100 \<and> (0::real) < 100 \<and> input_max example_config = Some 100
   \<and> calculateOutputValue example_config 100 (Fin 40) = Fin 100"
  using calculateOutputValue_full_positive [of example_config 100 100 40]
  by (simp add: example_config_def empty_config_def)

text \<open>
  C12. Full negative deflection: with the slider at \<open>-slider_max\<close> the output is exactly
  \<open>input_min\<close>, whatever the (finite) input value.
\<close>

theorem calculateOutputValue_full_negative:
  assumes "slider_max cfg = Some m" "0 < m" "input_min cfg = Some lo"
  shows "calculateOutputValue cfg (- m) (Fin x) = Fin lo"
  using assms by (simp add: calculateOutputValue_neg)

theorem calculateOutputValue_full_negative_witness:
  "slider_max example_config = Some 100 \<and> (0::real) < 100 \<and> input_min example_config = Some 0
   \<and> calculateOutputValue example_config (- 100) (Fin 40) = Fin 0"
  using calculateOutputValue_full_negative [of example_config 100 0 40]
  by (simp add: example_config_def empty_config_def)

text \<open>
  C13. Range: with \<open>0 < slider_max\<close>, a slider position within \<open>[-slider_max, slider_max]\<close>
  and an input value within \<open>[input_min, input_max]\<close>, the output is a finite number
  within \<open>[input_min, input_max]\<close>.
\<close>

theorem calculateOutputValue_within_input_range:
  assumes "slider_max cfg = Some m" "0 < m" "input_min cfg = Some lo" "input_max cfg = Some hi"
    and "\<bar>s\<bar> \<le> m" "lo \<le> x" "x \<le> hi"
  shows "\<exists>y. calculateOutputValue cfg s (Fin x) = Fin y \<and> lo \<le> y \<and> y \<le> hi"
proof -
  let ?w = "\<bar>s\<bar> / m" and ?t = "if 0 < s then hi else lo"
  have eq: "calculateOutputValue cfg s (Fin x) = Fin ((1 - ?w) * x + ?w * ?t)"
    using calculateOutputValue_Fin [OF assms(1) _ assms(3,4)] assms(2)
    by (simp add: override_spec_def)
  have "0 \<le> ?w" "?w \<le> 1" using assms(2,5) by simp_all
  moreover have "lo \<le> ?t" "?t \<le> hi" using assms(6,7) by simp_all
  ultimately have "lo \<le> (1 - ?w) * x + ?w * ?t \<and> (1 - ?w) * x + ?w * ?t \<le> hi"
    using assms(6,7) by (intro convex_between)
  with eq show ?thesis by blast
qed

theorem calculateOutputValue_within_input_range_witness:
  "\<exists>y. calculateOutputValue example_config (- 30) (Fin 40) = Fin y \<and> 0 \<le> y \<and> y \<le> 100"
  using calculateOutputValue_within_input_range [of example_config 100 0 100 "- 30" 40]
  by (simp add: example_config_def empty_config_def)

text \<open>
  C20. Asymmetric slider range: the weight divides by \<open>slider_max\<close> also for negative
  positions, so the slider's own minimum \<open>slider_min\<close> reaches \<open>input_min\<close> only when
  \<open>slider_min = -slider_max\<close> (for any input value other than \<open>input_min\<close>).
\<close>

theorem calculateOutputValue_at_slider_min:
  assumes "slider_max cfg = Some m" "0 < m" "slider_min cfg = Some smin" "smin < 0"
    and "input_min cfg = Some lo" "x \<noteq> lo"
  shows "calculateOutputValue cfg smin (Fin x) = Fin lo \<longleftrightarrow> smin = - m"
proof -
  have "calculateOutputValue cfg smin (Fin x) = Fin (x - (x - lo) * (- smin / m))"
    using assms by (simp add: calculateOutputValue_neg)
  moreover have "x - (x - lo) * (- smin / m) - lo = (x - lo) * (1 + smin / m)"
    by (simp add: algebra_simps)
  moreover have "1 + smin / m = 0 \<longleftrightarrow> smin = - m"
    using assms(2) by (auto simp: field_simps)
  ultimately show ?thesis using assms(6) by auto
qed

theorem calculateOutputValue_at_slider_min_witness:
  "\<not> (calculateOutputValue (example_config\<lparr>slider_min := Some (-50)\<rparr>) (- 50) (Fin 40) = Fin 0)"
  using calculateOutputValue_at_slider_min
      [of "example_config\<lparr>slider_min := Some (-50)\<rparr>" 100 "- 50" 0 40]
  by (simp add: example_config_def empty_config_def)

text \<open>
  Missing \<open>slider_max\<close>: \<open>calculateOutputValue\<close> reads \<open>this.config.slider_max\<close>
  without the default \<open>100\<close> that \<open>render\<close> uses, so when it is not configured
  every non-neutral position yields \<open>NaN\<close>, whatever the input.
\<close>

lemma calculateOutputValue_no_slider_max:
  assumes "slider_max cfg = None" "s \<noteq> 0"
  shows "calculateOutputValue cfg s v = NaN"
  using assms by (simp add: calculateOutputValue_def)

text \<open>
  C24. An unparseable input (\<open>parseFloat\<close> gave \<open>NaN\<close>, e.g. the state
  \<open>unavailable\<close>) gives \<open>NaN\<close> at every slider position.
\<close>

theorem calculateOutputValue_NaN_input: "calculateOutputValue cfg s NaN = NaN"
  by (simp add: calculateOutputValue_def js_sub_def Let_def)

text \<open>
  C22. The light write on a finite output: a value \<open>\<le> 0\<close> turns the light off, a positive
  one turns it on with brightness \<open>min 100 value\<close>, which lies in \<open>(0, 100]\<close>.
\<close>

theorem output_call_light_finite:
  "output_call True e (Fin y) =
     (if y \<le> 0 then LightTurnOff e else LightTurnOn e (Fin (min 100 y)))"
  by (simp add: output_call_def max_def)

text \<open>
  C23. The light write on \<open>NaN\<close>: \<open>NaN <= 0\<close> is false and \<open>Math.min\<close>,
  \<open>Math.max\<close> propagate \<open>NaN\<close>, so the card turns the light on with
  \<open>brightness_pct: NaN\<close> instead of refusing the write.
\<close>

theorem output_call_light_NaN: "output_call True e NaN = LightTurnOn e NaN"
  by (simp add: output_call_def)

end
