(* ===== verification/ColorDeriver.thy ===== *)
theory ColorDeriver
  imports Config
begin

text \<open>
  The colour deriver: \<open>getLightColor\<close>, \<open>hslToRgb\<close> and \<open>hexToRgb\<close>. The colour is
  either a CSS string (the configured \<open>slider_color\<close>, the grey of an unavailable
  light) or an \<open>rgb(r, g, b)\<close> triple whose channels are the results of
  \<open>Math.round\<close>; a channel computed from \<open>NaN\<close> (only possible through
  \<open>hexToRgb\<close> on a malformed string) is \<open>None\<close>. The precedence of the source
  (no colour entity, unavailable, off, then RGB, HS, XY, colour temperature, fallback) is
  the order of the \<open>case\<close> chain of \<open>getLightColor\<close>.
\<close>

datatype css_color = Css string | Rgb "int option" "int option" "int option"

section \<open>Helpers\<close>

text \<open>\<open>hexToRgb(hex)\<close>: the three two-digit fields after the \<open>#\<close>.\<close>

definition hexToRgb :: "string \<Rightarrow> int option \<times> int option \<times> int option" where
  "hexToRgb hex =
     (parse_int16 (js_slice hex 1 3), parse_int16 (js_slice hex 3 5), parse_int16 (js_slice hex 5 7))"

text \<open>\<open>hslToRgb(h, s, l)\<close>, with \<open>%\<close> the truncating remainder.\<close>

definition hslToRgb :: "real \<Rightarrow> real \<Rightarrow> real \<Rightarrow> int \<times> int \<times> int" where
  "hslToRgb h s0 l0 =
     (let s = s0 / 100; l = l0 / 100;
          c = (1 - \<bar>2 * l - 1\<bar>) * s;
          x = c * (1 - \<bar>js_rem (h / 60) 2 - 1\<bar>);
          m = l - c / 2;
          (r, g, b) = (if 0 \<le> h \<and> h < 60 then (c, x, 0)
                       else if 60 \<le> h \<and> h < 120 then (x, c, 0)
                       else if 120 \<le> h \<and> h < 180 then (0, c, x)
                       else if 180 \<le> h \<and> h < 240 then (0, x, c)
                       else if 240 \<le> h \<and> h < 300 then (x, 0, c)
                       else (c, 0, x))
      in (math_round ((r + m) * 255), math_round ((g + m) * 255), math_round ((b + m) * 255)))"

text \<open>
  \<open>colorState.attributes.brightness ? 0.5 + (brightness / 255) / 2 : 1\<close>: a brightness
  of \<open>0\<close> is falsy and gives the factor \<open>1\<close>.
\<close>

definition brightness_factor :: "light_attrs \<Rightarrow> real" where
  "brightness_factor a =
     (case brightness a of None \<Rightarrow> 1 | Some b \<Rightarrow> if b = 0 then 1 else 1 / 2 + (b / 255) / 2)"

text \<open>\<open>rgb(Math.round(r * f), Math.round(g * f), Math.round(b * f))\<close>.\<close>

definition scaled_rgb :: "real \<Rightarrow> real \<Rightarrow> real \<Rightarrow> real \<Rightarrow> css_color" where
  "scaled_rgb f r g b =
     Rgb (Some (math_round (r * f))) (Some (math_round (g * f))) (Some (math_round (b * f)))"

text \<open>The colour-temperature approximation: \<open>(red, blue)\<close>, green is red.\<close>

definition temp_red_blue :: "real \<Rightarrow> real \<times> real" where
  "temp_red_blue temp =
     (min 255 (max 0 (150 + (temp - 150) / 4)), min 255 (max 0 (255 - (temp - 150) / 2)))"

text \<open>The fallback orange \<open>#fec007\<close>, each channel scaled (\<open>NaN\<close> stays \<open>NaN\<close>).\<close>

definition fallback_rgb :: "real \<Rightarrow> css_color" where
  "fallback_rgb f =
     (case hexToRgb ''#fec007'' of
        (r, g, b) \<Rightarrow> Rgb (map_option (\<lambda>v. math_round (of_int v * f)) r)
                         (map_option (\<lambda>v. math_round (of_int v * f)) g)
                         (map_option (\<lambda>v. math_round (of_int v * f)) b))"

text \<open>The colour of a light that is on, from its attributes: steps 5 to 7 of the source.\<close>

definition attrs_color :: "light_attrs \<Rightarrow> css_color" where
  "attrs_color a =
     (let f = brightness_factor a in
      case rgb_color a of
        Some (r, g, b) \<Rightarrow> scaled_rgb f r g b
      | None \<Rightarrow>
      (case hs_color a of
         Some (h, s) \<Rightarrow> (case hslToRgb h s 100 of
                           (r, g, b) \<Rightarrow> scaled_rgb f (of_int r) (of_int g) (of_int b))
       | None \<Rightarrow>
       (case xy_color a of
          Some _ \<Rightarrow> (let white = math_round (255 * f) in Rgb (Some white) (Some white) (Some white))
        | None \<Rightarrow>
        (case color_temp a of
           Some temp \<Rightarrow>
             (if temp = 0 then fallback_rgb f
              else (case temp_red_blue temp of
                      (red, blue) \<Rightarrow> Rgb (Some (math_round (red * f))) (Some (math_round (red * f)))
                                        (Some (math_round (blue * f)))))
         | None \<Rightarrow> fallback_rgb f))))"

text \<open>The default colour \<open>this.config.slider_color || '#4473a0'\<close>.\<close>

definition default_color :: "card_config \<Rightarrow> css_color" where
  "default_color cfg = Css (js_or_str (slider_color cfg) ''#4473a0'')"

section \<open>getLightColor\<close>

definition getLightColor :: "card_config \<Rightarrow> hass_states \<Rightarrow> css_color" where
  "getLightColor cfg states =
     (case color_entity cfg of
        None \<Rightarrow> default_color cfg
      | Some ce \<Rightarrow>
          (if ce = [] then default_color cfg
           else (case states ce of
                   None \<Rightarrow> Css ''#808080''
                 | Some st \<Rightarrow>
                     (if state st = ''unavailable'' then Css ''#808080''
                      else if state st = ''off'' then default_color cfg
                      else attrs_color (attributes st)))))"

text \<open>The channel range of a derived colour: every channel a number in \<open>[0, 255]\<close>.\<close>

fun color_in_range :: "css_color \<Rightarrow> bool" where
  "color_in_range (Css _) = True"
| "color_in_range (Rgb (Some r) (Some g) (Some b)) =
     (0 \<le> r \<and> r \<le> 255 \<and> 0 \<le> g \<and> g \<le> 255 \<and> 0 \<le> b \<and> b \<le> 255)"
| "color_in_range (Rgb _ _ _) = False"

text \<open>The documented ranges of the attributes the channels scale: brightness and RGB
  channels in \<open>[0, 255]\<close>.\<close>

definition attrs_in_range :: "light_attrs \<Rightarrow> bool" where
  "attrs_in_range a \<longleftrightarrow>
     (case brightness a of None \<Rightarrow> True | Some v \<Rightarrow> 0 \<le> v \<and> v \<le> 255)
     \<and> (case rgb_color a of None \<Rightarrow> True
        | Some (r, g, b) \<Rightarrow> 0 \<le> r \<and> r \<le> 255 \<and> 0 \<le> g \<and> g \<le> 255 \<and> 0 \<le> b \<and> b \<le> 255)"

text \<open>Two lower-case hexadecimal digits of a byte, as in a CSS colour \<open>#rrggbb\<close>.\<close>

definition hex_char :: "nat \<Rightarrow> char" where
  "hex_char d = char_of (if d < 10 then 48 + d else 87 + d)"

definition hex2 :: "nat \<Rightarrow> string" where
  "hex2 n = [hex_char (n div 16), hex_char (n mod 16)]"

text \<open>A colour source for the witnesses: \<open>light.bulb\<close>, on, with the given attributes.\<close>

definition color_cfg :: card_config where
  "color_cfg = example_config\<lparr>color_entity := Some ''light.bulb''\<rparr>"

definition bulb :: "string \<Rightarrow> light_attrs \<Rightarrow> hass_states" where
  "bulb st a = [''light.bulb'' \<mapsto> \<lparr>state = st, attributes = a\<rparr>]"

section \<open>Lemmas\<close>

lemma getLightColor_on:
  "color_entity cfg = Some ce \<Longrightarrow> ce \<noteq> [] \<Longrightarrow> states ce = Some st \<Longrightarrow>
   state st \<noteq> ''unavailable'' \<Longrightarrow> state st \<noteq> ''off'' \<Longrightarrow>
   getLightColor cfg states = attrs_color (attributes st)"
  by (simp add: getLightColor_def)

lemma hexToRgb_orange: "hexToRgb ''#fec007'' = (Some 254, Some 192, Some 7)"
  by code_simp

lemma fallback_rgb_eq:
  "fallback_rgb f = scaled_rgb f 254 192 7"
  by (simp add: fallback_rgb_def hexToRgb_orange scaled_rgb_def)

lemma brightness_factor_bounds:
  assumes "\<forall>b. brightness a = Some b \<longrightarrow> 0 \<le> b \<and> b \<le> 255"
  shows "1 / 2 \<le> brightness_factor a \<and> brightness_factor a \<le> 1"
  using assms by (auto simp: brightness_factor_def split: option.splits)

lemma hslToRgb_full_lightness_eq: "hslToRgb h s 100 = (255, 255, 255)"
  by (simp add: hslToRgb_def Let_def)

lemma scaled_byte:
  fixes v f :: real
  assumes "0 \<le> v" "v \<le> 255" "1 / 2 \<le> f" "f \<le> 1"
  shows "0 \<le> math_round (v * f) \<and> math_round (v * f) \<le> 255"
proof -
  have "v * f \<le> v" using assms by (simp add: mult_left_le)
  moreover have "0 \<le> v * f" using assms by simp
  ultimately show ?thesis using assms(2) by (intro math_round_byte) simp_all
qed

lemma scaled_rgb_in_range:
  assumes "0 \<le> r" "r \<le> 255" "0 \<le> g" "g \<le> 255" "0 \<le> b" "b \<le> 255" "1 / 2 \<le> f" "f \<le> 1"
  shows "color_in_range (scaled_rgb f r g b)"
  using assms scaled_byte [of r f] scaled_byte [of g f] scaled_byte [of b f]
  by (simp add: scaled_rgb_def)

lemma temp_red_blue_bytes:
  "temp_red_blue t = (red, blue) \<Longrightarrow> 0 \<le> red \<and> red \<le> 255 \<and> 0 \<le> blue \<and> blue \<le> 255"
  by (auto simp: temp_red_blue_def)

lemma attrs_color_in_range:
  assumes "attrs_in_range a"
  shows "color_in_range (attrs_color a)"
proof -
  let ?f = "brightness_factor a"
  have f: "1 / 2 \<le> ?f" "?f \<le> 1"
    using assms brightness_factor_bounds [of a]
    by (auto simp: attrs_in_range_def split: option.splits)
  have white: "color_in_range (scaled_rgb ?f 255 255 255)"
    using f by (intro scaled_rgb_in_range) simp_all
  have orange: "color_in_range (fallback_rgb ?f)"
    using f by (simp add: fallback_rgb_eq scaled_rgb_in_range)
  have temp: "color_in_range (case temp_red_blue t of (red, blue) \<Rightarrow>
      Rgb (Some (math_round (red * ?f))) (Some (math_round (red * ?f))) (Some (math_round (blue * ?f))))" for t
    using f temp_red_blue_bytes [of t] scaled_byte
    by (auto split: prod.splits)
  show ?thesis
  proof (cases "rgb_color a")
    case (Some t)
    then obtain r g b where "rgb_color a = Some (r, g, b)" by (cases t) auto
    with assms f show ?thesis
      by (auto simp: attrs_color_def attrs_in_range_def intro!: scaled_rgb_in_range)
  next
    case None
    then show ?thesis
      using white orange temp f scaled_byte [of 255 ?f]
      by (auto simp: attrs_color_def hslToRgb_full_lightness_eq Let_def mult.commute
          split: option.splits prod.splits)
  qed
qed

lemma hsl_chroma:
  fixes s l :: real
  assumes "0 \<le> s" "s \<le> 1" "0 \<le> l" "l \<le> 1"
  shows "0 \<le> (1 - \<bar>2 * l - 1\<bar>) * s \<and> 0 \<le> l - (1 - \<bar>2 * l - 1\<bar>) * s / 2
    \<and> (1 - \<bar>2 * l - 1\<bar>) * s + (l - (1 - \<bar>2 * l - 1\<bar>) * s / 2) \<le> 1"
proof -
  let ?k = "1 - \<bar>2 * l - 1\<bar>"
  have k: "0 \<le> ?k" "?k \<le> 2 * l" "?k \<le> 2 - 2 * l" using assms by auto
  have "?k * s \<le> ?k" using k assms by (simp add: mult_left_le)
  moreover have "0 \<le> ?k * s" using k assms by simp
  ultimately show ?thesis using k by linarith
qed

lemma hsl_secondary:
  fixes c h :: real
  assumes "0 \<le> h" "0 \<le> c"
  shows "0 \<le> c * (1 - \<bar>js_rem (h / 60) 2 - 1\<bar>) \<and> c * (1 - \<bar>js_rem (h / 60) 2 - 1\<bar>) \<le> c"
proof -
  have "0 \<le> js_rem (h / 60) 2 \<and> js_rem (h / 60) 2 < 2"
    using assms(1) by (intro js_rem_nonneg_bounds) simp_all
  then have "0 \<le> 1 - \<bar>js_rem (h / 60) 2 - 1\<bar>" "1 - \<bar>js_rem (h / 60) 2 - 1\<bar> \<le> 1" by auto
  then show ?thesis using assms(2) by (simp add: mult_left_le)
qed

lemma hsl_channel:
  fixes v c m :: real
  assumes "0 \<le> v" "v \<le> c" "0 \<le> m" "c + m \<le> 1"
  shows "0 \<le> math_round ((v + m) * 255) \<and> math_round ((v + m) * 255) \<le> 255"
  using assms by (intro math_round_byte) simp_all

lemma of_char_hex_char:
  assumes "d < 16"
  shows "(of_char (hex_char d) :: nat) = (if d < 10 then 48 + d else 87 + d)"
  using assms by (simp add: hex_char_def)

lemma hex_char_props:
  assumes "d < 16"
  shows "is_hex_digit (hex_char d) \<and> hex_digit_value (hex_char d) = d \<and> \<not> js_whitespace (hex_char d)
    \<and> hex_char d \<noteq> CHR ''-'' \<and> hex_char d \<noteq> CHR ''+'' \<and> hex_char d \<noteq> CHR ''x'' \<and> hex_char d \<noteq> CHR ''X''"
proof -
  have o: "(of_char (hex_char d) :: nat) = (if d < 10 then 48 + d else 87 + d)"
    using assms by (rule of_char_hex_char)
  have ne: "hex_char d \<noteq> c" if "(of_char c :: nat) \<notin> {48..57} \<union> {97..102}" for c
    using that o assms by (auto split: if_splits)
  show ?thesis
    using o assms ne [of "CHR ''-''"] ne [of "CHR ''+''"] ne [of "CHR ''x''"] ne [of "CHR ''X''"]
    by (auto simp: is_hex_digit_def is_digit_def hex_digit_value_def js_whitespace_def)
qed

lemma parse_int16_hex2:
  assumes "n < 256"
  shows "parse_int16 (hex2 n) = Some (int n)"
proof -
  have d: "n div 16 < 16" "n mod 16 < 16" using assms by simp_all
  note p1 = hex_char_props [OF d(1)] and p0 = hex_char_props [OF d(2)]
  have "hex_value (hex2 n) = n"
    using p1 p0 by (simp add: hex_value_def hex2_def)
  moreover have "takeWhile is_hex_digit (hex2 n) = hex2 n"
    using p1 p0 by (simp add: hex2_def)
  ultimately show ?thesis
    using p1 p0 by (simp add: parse_int16_def hex2_def)
qed

lemma hex2_orange: "CHR ''#'' # hex2 254 @ hex2 192 @ hex2 7 = ''#fec007''"
  by code_simp

section \<open>Properties\<close>

text \<open>
  C29. Rule 1: with no colour entity configured (absent or empty), the colour is the
  configured \<open>slider_color\<close>, or \<open>#4473a0\<close> when that is absent or empty, whatever
  the state bus holds.
\<close>

theorem getLightColor_no_color_entity:
  assumes "\<not> js_truthy_str (color_entity cfg)"
  shows "getLightColor cfg states = Css (js_or_str (slider_color cfg) ''#4473a0'')"
  using assms
  by (auto simp: getLightColor_def default_color_def split: option.splits)

theorem getLightColor_no_color_entity_witness:
  "getLightColor example_config (bulb ''on'' no_attrs) = Css ''#4473a0''"
  using getLightColor_no_color_entity [of example_config "bulb ''on'' no_attrs"]
  by (simp add: example_config_def empty_config_def)

text \<open>
  C30. Rule 2: a configured colour entity that is missing from the state bus, or whose
  state is \<open>unavailable\<close>, gives the grey \<open>#808080\<close>, whatever its attributes.
\<close>

theorem getLightColor_unavailable:
  assumes "color_entity cfg = Some ce" "ce \<noteq> []"
  shows "getLightColor cfg (states(ce := None)) = Css ''#808080''
    \<and> getLightColor cfg (states(ce \<mapsto> \<lparr>state = ''unavailable'', attributes = a\<rparr>)) = Css ''#808080''"
  using assms by (simp add: getLightColor_def)

theorem getLightColor_unavailable_witness:
  "getLightColor color_cfg (Map.empty(''light.bulb'' := None)) = Css ''#808080''
   \<and> getLightColor color_cfg (Map.empty(''light.bulb'' \<mapsto> \<lparr>state = ''unavailable'', attributes = no_attrs\<rparr>))
       = Css ''#808080''"
  using getLightColor_unavailable [of color_cfg "''light.bulb''" Map.empty no_attrs]
  by (simp add: color_cfg_def example_config_def empty_config_def)

text \<open>
  C31. Rule 3: a colour entity that is \<open>off\<close> gives the default colour
  (\<open>slider_color || '#4473a0'\<close>), whatever its attributes.
\<close>

theorem getLightColor_off:
  assumes "color_entity cfg = Some ce" "ce \<noteq> []" "states ce = Some st" "state st = ''off''"
  shows "getLightColor cfg states = Css (js_or_str (slider_color cfg) ''#4473a0'')"
  using assms by (simp add: getLightColor_def default_color_def)

theorem getLightColor_off_witness:
  "getLightColor color_cfg (bulb ''off'' (no_attrs\<lparr>rgb_color := Some (255, 0, 0)\<rparr>)) = Css ''#4473a0''"
  using getLightColor_off [of color_cfg "''light.bulb''" "bulb ''off'' (no_attrs\<lparr>rgb_color := Some (255, 0, 0)\<rparr>)"
      "\<lparr>state = ''off'', attributes = no_attrs\<lparr>rgb_color := Some (255, 0, 0)\<rparr>\<rparr>"]
  by (simp add: color_cfg_def example_config_def empty_config_def bulb_def)

text \<open>
  C32. Rule 5 and the precedence RGB first: a light that is on and reports an RGB triple
  is shown as that triple, each channel multiplied by the brightness factor and rounded,
  whatever hue/saturation, chromaticity or temperature it also reports.
\<close>

theorem getLightColor_rgb:
  assumes "color_entity cfg = Some ce" "ce \<noteq> []" "states ce = Some st"
    and "state st \<noteq> ''unavailable''" "state st \<noteq> ''off''" "rgb_color (attributes st) = Some (r, g, b)"
  shows "getLightColor cfg states = scaled_rgb (brightness_factor (attributes st)) r g b"
  using assms by (simp add: getLightColor_on attrs_color_def)

theorem getLightColor_rgb_witness:
  "getLightColor color_cfg
     (bulb ''on'' (no_attrs\<lparr>brightness := Some 255, rgb_color := Some (200, 100, 50),
                             hs_color := Some (120, 100)\<rparr>))
   = Rgb (Some 200) (Some 100) (Some 50)"
  using getLightColor_rgb [of color_cfg "''light.bulb''"
      "bulb ''on'' (no_attrs\<lparr>brightness := Some 255, rgb_color := Some (200, 100, 50), hs_color := Some (120, 100)\<rparr>)"
      "\<lparr>state = ''on'', attributes = no_attrs\<lparr>brightness := Some 255, rgb_color := Some (200, 100, 50), hs_color := Some (120, 100)\<rparr>\<rparr>"
      200 100 50]
  by (simp add: color_cfg_def example_config_def empty_config_def bulb_def no_attrs_def
      scaled_rgb_def brightness_factor_def)

text \<open>
  C33. Brightness 0 is falsy: for every configuration, every state bus and every
  attribute set, a colour entity reporting \<open>brightness: 0\<close> is shown exactly as the same
  entity at full brightness \<open>255\<close> (factor 1), not at the factor \<open>0.5\<close> the formula
  \<open>0.5 + (b / 255) / 2\<close> gives for \<open>b = 0\<close>.
\<close>

theorem getLightColor_brightness_zero:
  "getLightColor cfg (states(ce \<mapsto> ent\<lparr>attributes := a\<lparr>brightness := Some 0\<rparr>\<rparr>))
   = getLightColor cfg (states(ce \<mapsto> ent\<lparr>attributes := a\<lparr>brightness := Some 255\<rparr>\<rparr>))"
proof -
  have "attrs_color (a\<lparr>brightness := Some 0\<rparr>) = attrs_color (a\<lparr>brightness := Some 255\<rparr>)"
    by (simp add: attrs_color_def brightness_factor_def cong: option.case_cong)
  then show ?thesis by (simp add: getLightColor_def split: option.splits)
qed

text \<open>
  C34. Hue/saturation is lost: \<open>hslToRgb\<close> is called with lightness \<open>100\<close>, where the
  chroma \<open>(1 - |2l - 1|) s\<close> is 0, so a light that is on and reports only a hue/saturation
  pair is always shown white (scaled by the brightness factor), whatever its hue.
\<close>

theorem getLightColor_hs_white:
  assumes "color_entity cfg = Some ce" "ce \<noteq> []" "states ce = Some st"
    and "state st \<noteq> ''unavailable''" "state st \<noteq> ''off''"
    and "rgb_color (attributes st) = None" "hs_color (attributes st) = Some (h, sat)"
  shows "getLightColor cfg states =
    Rgb (Some (math_round (255 * brightness_factor (attributes st))))
        (Some (math_round (255 * brightness_factor (attributes st))))
        (Some (math_round (255 * brightness_factor (attributes st))))"
  using assms
  by (simp add: getLightColor_on attrs_color_def hslToRgb_full_lightness_eq scaled_rgb_def
      Let_def mult.commute)

theorem getLightColor_hs_white_witness:
  "getLightColor color_cfg (bulb ''on'' (no_attrs\<lparr>hs_color := Some (240, 100)\<rparr>))
   = Rgb (Some 255) (Some 255) (Some 255)"
  using getLightColor_hs_white [of color_cfg "''light.bulb''" "bulb ''on'' (no_attrs\<lparr>hs_color := Some (240, 100)\<rparr>)"
      "\<lparr>state = ''on'', attributes = no_attrs\<lparr>hs_color := Some (240, 100)\<rparr>\<rparr>" 240 100]
  by (simp add: color_cfg_def example_config_def empty_config_def bulb_def no_attrs_def
      brightness_factor_def)

text \<open>
  C35. Rule 9: a light that is on and reports none of RGB, hue/saturation, chromaticity,
  or a non-zero colour temperature is shown in the fallback orange \<open>#fec007\<close> =
  \<open>(254, 192, 7)\<close>, scaled by the brightness factor.
\<close>

theorem getLightColor_fallback:
  assumes "color_entity cfg = Some ce" "ce \<noteq> []" "states ce = Some st"
    and "state st \<noteq> ''unavailable''" "state st \<noteq> ''off''"
    and "rgb_color (attributes st) = None" "hs_color (attributes st) = None"
    and "xy_color (attributes st) = None" "color_temp (attributes st) \<in> {None, Some 0}"
  shows "getLightColor cfg states = scaled_rgb (brightness_factor (attributes st)) 254 192 7"
  using assms
  by (auto simp: getLightColor_on attrs_color_def fallback_rgb_eq)

theorem getLightColor_fallback_witness:
  "getLightColor color_cfg (bulb ''on'' (no_attrs\<lparr>brightness := Some 255\<rparr>))
   = Rgb (Some 254) (Some 192) (Some 7)"
  using getLightColor_fallback [of color_cfg "''light.bulb''" "bulb ''on'' (no_attrs\<lparr>brightness := Some 255\<rparr>)"
      "\<lparr>state = ''on'', attributes = no_attrs\<lparr>brightness := Some 255\<rparr>\<rparr>"]
  by (simp add: color_cfg_def example_config_def empty_config_def bulb_def no_attrs_def
      brightness_factor_def scaled_rgb_def)

text \<open>
  C36. Channel range: when every light on the state bus reports its brightness and RGB
  channels within \<open>[0, 255]\<close>, the derived colour is a CSS string or an RGB triple
  with every channel a number within \<open>[0, 255]\<close> (never \<open>NaN\<close>), on every branch
  (RGB, hue/saturation, chromaticity, colour temperature, fallback).
\<close>

theorem getLightColor_in_range:
  assumes "\<forall>e st. states e = Some st \<longrightarrow> attrs_in_range (attributes st)"
  shows "color_in_range (getLightColor cfg states)"
  using assms attrs_color_in_range
  by (auto simp: getLightColor_def default_color_def split: option.splits)

theorem getLightColor_in_range_witness:
  "color_in_range (getLightColor color_cfg
     (bulb ''on'' (no_attrs\<lparr>brightness := Some 128, rgb_color := Some (200, 100, 50)\<rparr>)))"
proof -
  have "\<forall>e st. bulb ''on'' (no_attrs\<lparr>brightness := Some 128, rgb_color := Some (200, 100, 50)\<rparr>) e = Some st
      \<longrightarrow> attrs_in_range (attributes st)"
    by (simp add: bulb_def attrs_in_range_def no_attrs_def)
  then show ?thesis by (rule getLightColor_in_range)
qed

text \<open>
  C37. \<open>hslToRgb\<close> stays in range: for a non-negative hue and saturation and lightness
  within \<open>[0, 100]\<close>, every channel it returns lies in \<open>[0, 255]\<close>.
\<close>

theorem hslToRgb_in_range:
  assumes "0 \<le> h" "0 \<le> s" "s \<le> 100" "0 \<le> l" "l \<le> 100"
  shows "case hslToRgb h s l of (r, g, b) \<Rightarrow> 0 \<le> r \<and> r \<le> 255 \<and> 0 \<le> g \<and> g \<le> 255 \<and> 0 \<le> b \<and> b \<le> 255"
proof -
  define c where "c = (1 - \<bar>2 * (l / 100) - 1\<bar>) * (s / 100)"
  define x where "x = c * (1 - \<bar>js_rem (h / 60) 2 - 1\<bar>)"
  define m where "m = l / 100 - c / 2"
  have cm: "0 \<le> c" "0 \<le> m" "c + m \<le> 1"
    using hsl_chroma [of "s / 100" "l / 100"] assms by (simp_all add: c_def m_def)
  have x: "0 \<le> x" "x \<le> c"
    using hsl_secondary [OF assms(1) cm(1)] by (simp_all add: x_def)
  have ch: "0 \<le> v \<Longrightarrow> v \<le> c \<Longrightarrow> 0 \<le> math_round ((v + m) * 255) \<and> math_round ((v + m) * 255) \<le> 255" for v
    using cm by (intro hsl_channel) simp_all
  have c0: "0 \<le> math_round ((0 + m) * 255) \<and> math_round ((0 + m) * 255) \<le> 255"
    using cm by (intro ch) simp_all
  have cc: "0 \<le> math_round ((c + m) * 255) \<and> math_round ((c + m) * 255) \<le> 255"
    using cm by (intro ch) simp_all
  have cx: "0 \<le> math_round ((x + m) * 255) \<and> math_round ((x + m) * 255) \<le> 255"
    using x by (intro ch) simp_all
  show ?thesis
    unfolding hslToRgb_def Let_def c_def [symmetric] x_def [symmetric] m_def [symmetric]
    using c0 cc cx by (simp split: if_splits)
qed

theorem hslToRgb_in_range_witness:
  "case hslToRgb 200 80 50 of (r, g, b) \<Rightarrow> 0 \<le> r \<and> r \<le> 255 \<and> 0 \<le> g \<and> g \<le> 255 \<and> 0 \<le> b \<and> b \<le> 255"
  using hslToRgb_in_range [of 200 80 50] by simp

text \<open>
  C38. Round trip: \<open>hexToRgb\<close> reads back every colour written as \<open>#rrggbb\<close> with
  two lower-case hexadecimal digits per channel.
\<close>

theorem hexToRgb_hex2:
  assumes "r < 256" "g < 256" "b < 256"
  shows "hexToRgb (CHR ''#'' # hex2 r @ hex2 g @ hex2 b) = (Some (int r), Some (int g), Some (int b))"
proof -
  have "length (hex2 n) = 2" for n by (simp add: hex2_def)
  then have "js_slice (CHR ''#'' # hex2 r @ hex2 g @ hex2 b) 1 3 = hex2 r"
    "js_slice (CHR ''#'' # hex2 r @ hex2 g @ hex2 b) 3 5 = hex2 g"
    "js_slice (CHR ''#'' # hex2 r @ hex2 g @ hex2 b) 5 7 = hex2 b"
    by (simp_all add: js_slice_def)
  then show ?thesis using assms by (simp add: hexToRgb_def parse_int16_hex2)
qed

theorem hexToRgb_hex2_witness: "hexToRgb ''#fec007'' = (Some 254, Some 192, Some 7)"
  using hexToRgb_hex2 [of 254 192 7] by (simp add: hex2_orange)

end
