(* ===== verification/Render.thy ===== *)
theory Render
  imports ColorDeriver
begin

text \<open>
  What \<open>render()\<close> puts in the shadow root (lines 117-277 of
  \<open>weighted-override-slider-card.js\<close>): the values of the template and of the noUiSlider
  options as the record \<open>slider_view\<close>, the states of the shadow root as the datatype
  \<open>view\<close>, the connect bar's geometry \<open>updateConnectElement\<close>, and the two halves of
  \<open>render\<close> around its \<open>await\<close>: \<open>slider_of\<close> (the template, built before it) and
  \<open>noUiSlider_create\<close> (the handle and bar, set after it from the value
  \<open>currentSliderValue\<close> has then). The lemmas give the fields of a view and the bounds of
  the connect bar.
\<close>

text \<open>
  What \<open>render\<close> writes into the shadow root when the input entity exists: the colour of
  the icon, the connect bar and the handle border; the title and icon; the label
  \<open>Math.round(currentSliderValue) + unit\<close>; the noUiSlider (handle position, range,
  step) and the connect bar's \<open>left\<close> and \<open>width\<close> in percent; the values the
  slider handlers capture from the destructured configuration; and the other values the
  style block interpolates (lines 147-235): the left margin of title and label
  (\<open>center_text\<close>, \<open>40px\<close> when an icon is shown), the track background, the handle
  colour and the handle's shadow colour. The CSS text around them is constant.
\<close>

record slider_view =
  sv_color :: css_color
  sv_title :: "string option"
  sv_icon :: "string option"
  sv_label :: "int \<times> string"
  sv_value :: real
  sv_min :: real
  sv_max :: real
  sv_step :: real
  sv_connect :: "jsnum \<times> jsnum"
  sv_unit :: string
  sv_input_entity :: string
  sv_output_entity :: string
  sv_margin :: string
  sv_background :: string
  sv_handle_color :: string
  sv_handle_shadow :: string

text \<open>
  The shadow root: empty (\<open>Blank\<close>, from the constructor), the placeholder
  \<open>Input entity not found\<close>, the template whose slider element is still empty because
  \<open>render\<close> is suspended at \<open>await this.loadNoUiSlider()\<close> (\<open>Template\<close>: the colour,
  title, icon and label of its view are shown, the handle and bar are not), or the
  mounted slider with its handlers.
\<close>

datatype view = Blank | NotFound | Template slider_view | Slider slider_view

text \<open>\<open>updateConnectElement(currentValue)\<close>: the bar from the zero position to the value.\<close>

definition updateConnectElement :: "real \<Rightarrow> real \<Rightarrow> real \<Rightarrow> jsnum \<times> jsnum" where
  "updateConnectElement smin smax v =
     (let zeroPos = js_mul (js_div (Fin (0 - smin)) (Fin (smax - smin))) (Fin 100);
          valuePos = js_mul (js_div (Fin (v - smin)) (Fin (smax - smin))) (Fin 100)
      in if 0 \<le> v then (zeroPos, js_sub valuePos zeroPos) else (valuePos, js_sub zeroPos valuePos))"

text \<open>\<open>name ? title : ''\<close> and \<open>icon ? icon : ''\<close>: a falsy string shows nothing.\<close>

definition shown :: "string option \<Rightarrow> string option" where
  "shown v = (case v of Some s \<Rightarrow> (if s = [] then None else Some s) | None \<Rightarrow> None)"

definition slider_of :: "card_config \<Rightarrow> hass_states \<Rightarrow> real \<Rightarrow> slider_view" where
  "slider_of cfg h v =
     (let st = render_settings cfg in
      \<lparr>sv_color = getLightColor cfg h,
       sv_title = shown (Some (set_name st)),
       sv_icon = shown (set_icon st),
       sv_label = (math_round v, set_unit st),
       sv_value = v,
       sv_min = set_slider_min st,
       sv_max = set_slider_max st,
       sv_step = set_step st,
       sv_connect = updateConnectElement (set_slider_min st) (set_slider_max st) v,
       sv_unit = set_unit st,
       sv_input_entity = dflt (input_entity cfg) ''undefined'',
       sv_output_entity = dflt (output_entity cfg) ''undefined'',
       sv_margin = (if js_truthy_str (set_icon st) then ''40px'' else ''0px''),
       sv_background = set_slider_background_color st,
       sv_handle_color = set_handle_color st,
       sv_handle_shadow = set_handle_shadow_color st\<rparr>)"


text \<open>
  The continuation of \<open>render\<close> after \<open>await this.loadNoUiSlider()\<close> (lines 253-277):
  \<open>noUiSlider.create\<close> puts the handle at \<open>this.currentSliderValue\<close>, read at that
  moment, and \<open>updateConnectElement(this.currentSliderValue)\<close> draws the bar with the
  range captured before the \<open>await\<close>. The colour stays as the template wrote it; the
  label is rewritten by the \<open>update\<close> handler that noUiSlider calls as soon as the card
  binds it (\<open>mount_slider\<close> in \<open>SyncController\<close>).
\<close>

definition noUiSlider_create :: "slider_view \<Rightarrow> real \<Rightarrow> slider_view" where
  "noUiSlider_create sv v =
     sv\<lparr>sv_value := v, sv_connect := updateConnectElement (sv_min sv) (sv_max sv) v\<rparr>"


section \<open>Lemmas\<close>

lemma slider_of_fields [simp, card_simps]:
  "sv_input_entity (slider_of cfg h v) = dflt (input_entity cfg) ''undefined''"
  "sv_output_entity (slider_of cfg h v) = dflt (output_entity cfg) ''undefined''"
  "sv_min (slider_of cfg h v) = dflt (slider_min cfg) (-100)"
  "sv_max (slider_of cfg h v) = dflt (slider_max cfg) 100"
  "sv_unit (slider_of cfg h v) = dflt (unit cfg) ''%''"
  "sv_value (slider_of cfg h v) = v"
  by (simp_all add: slider_of_def Let_def render_settings_def)

lemma noUiSlider_create_fields [simp, card_simps]:
  "sv_input_entity (noUiSlider_create sv v) = sv_input_entity sv"
  "sv_output_entity (noUiSlider_create sv v) = sv_output_entity sv"
  "sv_unit (noUiSlider_create sv v) = sv_unit sv"
  "sv_label (noUiSlider_create sv v) = sv_label sv"
  "sv_color (noUiSlider_create sv v) = sv_color sv"
  "sv_value (noUiSlider_create sv v) = v"
  "sv_min (noUiSlider_create sv v) = sv_min sv" "sv_max (noUiSlider_create sv v) = sv_max sv"
  "sv_step (noUiSlider_create sv v) = sv_step sv"
  by (simp_all add: noUiSlider_create_def)

text \<open>Mounting at the value the template was built from gives the view built at once.\<close>

text \<open>
  A template built at one value and mounted at another, with the label rewritten by the
  \<open>update\<close> event, is the view a render at the second value builds.
\<close>

lemma slider_of_remount [simp]:
  "(noUiSlider_create (slider_of cfg h v) w)\<lparr>sv_label := (math_round w, dflt (unit cfg) ''%'')\<rparr>
    = slider_of cfg h w"
  by (simp add: noUiSlider_create_def slider_of_def Let_def render_settings_def)

lemma percent_bounds:
  fixes a b d :: real
  assumes "0 < d" "0 \<le> a" "a \<le> b" "b \<le> d"
  shows "0 \<le> a / d * 100 \<and> a / d * 100 \<le> b / d * 100 \<and> b / d * 100 \<le> 100"
proof -
  have "a / d \<le> b / d" using assms by (simp add: divide_right_mono)
  then have "a / d * 100 \<le> b / d * 100" by (rule mult_right_mono) simp
  moreover have "b / d \<le> 1" using assms by simp
  then have "b / d * 100 \<le> 1 * 100" by (rule mult_right_mono) simp
  moreover have "0 \<le> a / d * 100" using assms by simp
  ultimately show ?thesis by linarith
qed

text \<open>
  C39. The connect bar: for a range containing 0 and a value within it, the bar's
  \<open>left\<close> and \<open>width\<close> are finite, lie within the track (\<open>0 \<le> left\<close>,
  \<open>0 \<le> width\<close>, \<open>left + width \<le> 100\<close>) and span exactly from the zero position to
  the value's position.
\<close>

theorem updateConnectElement_bounds:
  assumes "smin \<le> 0" "0 \<le> smax" "smin < smax" "smin \<le> v" "v \<le> smax"
  shows "\<exists>l w. updateConnectElement smin smax v = (Fin l, Fin w) \<and> 0 \<le> l \<and> 0 \<le> w \<and> l + w \<le> 100
    \<and> {l, l + w} = {(0 - smin) / (smax - smin) * 100, (v - smin) / (smax - smin) * 100}"
proof (cases "0 \<le> v")
  case True
  have "0 \<le> (0 - smin) / (smax - smin) * 100 \<and> (0 - smin) / (smax - smin) * 100 \<le> (v - smin) / (smax - smin) * 100
      \<and> (v - smin) / (smax - smin) * 100 \<le> 100"
    using assms True by (intro percent_bounds) auto
  then show ?thesis using True assms(3) by (simp add: updateConnectElement_def)
next
  case False
  have "0 \<le> (v - smin) / (smax - smin) * 100 \<and> (v - smin) / (smax - smin) * 100 \<le> (0 - smin) / (smax - smin) * 100
      \<and> (0 - smin) / (smax - smin) * 100 \<le> 100"
    using assms False by (intro percent_bounds) auto
  then show ?thesis using False assms(3) by (auto simp: updateConnectElement_def)
qed

theorem updateConnectElement_bounds_witness:
  "updateConnectElement (-100) 100 50 = (Fin 50, Fin 25)"
proof -
  from updateConnectElement_bounds [of "-100" 100 50] obtain l w where
    "updateConnectElement (-100) 100 50 = (Fin l, Fin w)" by auto
  then show ?thesis by (simp add: updateConnectElement_def)
qed

end
