(* ===== verification/SyncController.thy ===== *)
theory SyncController
  imports ValueMapper Render
begin

text \<open>
  The card as a state machine: the fields of the \<open>WeightedOverrideSliderCard\<close>
  instance (\<open>config\<close>, \<open>isLightEntity\<close>, \<open>currentSliderValue\<close>, \<open>isUpdating\<close>,
  \<open>_updateTimeout\<close>, \<open>_hass\<close>) and what its shadow root shows, the page's
  \<open>window.noUiSlider\<close>, a clock for the debounce timer, and one handler per entry point:
  \<open>setConfig\<close>, \<open>connectedCallback\<close>, the \<open>hass\<close> setter, the timer callback,
  \<open>render\<close> up to its \<open>await\<close>, the completion of the library's import (which resumes
  the suspended \<open>render\<close>), and the three slider handlers \<open>start\<close>, \<open>update\<close>,
  \<open>change\<close> that \<open>render\<close> installs. A handler returns the new state and its effects: a render of
  the shadow root, a service call, or an exception it raises (which ends the handler;
  the writes done before it stay). \<open>card_step\<close> dispatches an event, \<open>card_run\<close>
  runs a list of events, \<open>reachable\<close> is the set of states reachable from the
  constructor.
\<close>

section \<open>The card\<close>

record card =
  config :: "card_config option"
  is_light_entity :: bool
  current_slider_value :: real
  is_updating :: bool
  update_timeout :: "nat option"
  hass :: "hass_states option"
  now :: nat
  shadow :: view
  lib_loaded :: bool

datatype effect = Render | Call service_call | Raise card_error

datatype event =
    SetConfig card_config
  | Connected
  | SetHass hass_states
  | Tick nat
  | SliderStart
  | SliderUpdate real
  | SliderChange real
  | LibLoaded

text \<open>
  The constructor: no configuration, no \<open>hass\<close>, no timer, slider at 0, on a page
  where noUiSlider has not been loaded yet.
\<close>

definition card_init :: card where
  "card_init = \<lparr>config = None, is_light_entity = False, current_slider_value = 0,
     is_updating = False, update_timeout = None, hass = None, now = 0, shadow = Blank,
     lib_loaded = False\<rparr>"

text \<open>The delay of the debounce timer, in milliseconds.\<close>

definition debounce_delay :: nat where
  "debounce_delay = 500"

section \<open>Handlers\<close>

definition setConfig :: "card \<Rightarrow> card_config \<Rightarrow> card \<times> effect list" where
  "setConfig c cfg =
     (case check_config cfg of
        Inl e \<Rightarrow> (c, [Raise e])
      | Inr _ \<Rightarrow>
          (c\<lparr>config := Some cfg,
              is_light_entity := starts_with (dflt (output_entity cfg) []) ''light.'',
              current_slider_value := dflt (initial_slider_value cfg) 0\<rparr>, []))"

text \<open>The \<open>update\<close> handler: local state and the label and bar only.\<close>

definition on_update :: "slider_view \<Rightarrow> card \<Rightarrow> real \<Rightarrow> card \<times> effect list" where
  "on_update sv c v =
     (c\<lparr>current_slider_value := v,
         shadow := Slider (sv\<lparr>sv_value := v, sv_label := (math_round v, sv_unit sv),
                              sv_connect := updateConnectElement (sv_min sv) (sv_max sv) v\<rparr>)\<rparr>, [])"

text \<open>
  The continuation of \<open>render\<close> after its \<open>await\<close>: if the shadow root still holds the
  template this call wrote, noUiSlider is created in it at \<open>currentSliderValue\<close>
  (\<open>noUiSlider_create\<close>), and the handlers are bound (lines 279-309). Binding the
  \<open>update\<close> handler makes noUiSlider call it at once with the handle's position, so the
  label and \<open>currentSliderValue\<close> are rewritten from the mounted slider. A template
  replaced in the meantime is detached, and creating a slider in it changes nothing that
  is shown.
\<close>

definition mount_slider :: "card \<Rightarrow> card" where
  "mount_slider c =
     (case shadow c of
        Template sv \<Rightarrow>
          (let sv1 = noUiSlider_create sv (current_slider_value c)
           in fst (on_update sv1 (c\<lparr>shadow := Slider sv1\<rparr>) (sv_value sv1)))
      | _ \<Rightarrow> c)"

text \<open>
  \<open>render()\<close>: destructuring \<open>this.config\<close> and reading \<open>this._hass.states\<close> raise a
  \<open>TypeError\<close> while either is \<open>undefined\<close>; a missing input entity shows the
  placeholder; otherwise the template is written and \<open>render\<close> awaits
  \<open>loadNoUiSlider()\<close>. With \<open>window.noUiSlider\<close> defined that promise is already
  settled and the continuation runs before any other event; otherwise it waits for the
  import (\<open>loadNoUiSlider_done\<close>).
\<close>

definition render :: "card \<Rightarrow> card \<times> effect list" where
  "render c =
     (case config c of
        None \<Rightarrow> (c, [Raise (TypeError ''this.config'')])
      | Some cfg \<Rightarrow>
          (case hass c of
             None \<Rightarrow> (c, [Raise (TypeError ''this._hass'')])
           | Some h \<Rightarrow>
               (case h (dflt (input_entity cfg) ''undefined'') of
                  None \<Rightarrow> (c\<lparr>shadow := NotFound\<rparr>, [Render])
                | Some _ \<Rightarrow>
                    (let c1 = c\<lparr>shadow := Template (slider_of cfg h (current_slider_value c))\<rparr>
                     in (if lib_loaded c then mount_slider c1 else c1, [Render])))))"

text \<open>
  \<open>loadNoUiSlider()\<close> when \<open>window.noUiSlider\<close> was undefined: the dynamic import of
  the library completes, the global is set, and every \<open>render\<close> suspended on it resumes;
  only the latest one's template can still be in the shadow root.
\<close>

definition loadNoUiSlider_done :: "card \<Rightarrow> card \<times> effect list" where
  "loadNoUiSlider_done c = (mount_slider (c\<lparr>lib_loaded := True\<rparr>), [])"

text \<open>\<open>set hass(hass)\<close>: store it, cancel the pending timer, start a new one.\<close>

definition set_hass :: "card \<Rightarrow> hass_states \<Rightarrow> card \<times> effect list" where
  "set_hass c h = (c\<lparr>hass := Some h, update_timeout := Some (now c + debounce_delay)\<rparr>, [])"

text \<open>The timer callback: \<open>if (this.shadowRoot && !this.isUpdating) this.render()\<close>; the
  shadow root exists from the constructor on.\<close>

definition timer_fire :: "card \<Rightarrow> card \<times> effect list" where
  "timer_fire c =
     (let c1 = c\<lparr>update_timeout := None\<rparr> in if is_updating c1 then (c1, []) else render c1)"

text \<open>Time passes by \<open>n\<close> milliseconds; the pending timer fires if its deadline is reached.\<close>

definition tick :: "card \<Rightarrow> nat \<Rightarrow> card \<times> effect list" where
  "tick c n =
     (let c1 = c\<lparr>now := now c + n\<rparr> in
      case update_timeout c1 of
        Some d \<Rightarrow> (if d \<le> now c1 then timer_fire c1 else (c1, []))
      | None \<Rightarrow> (c1, []))"

text \<open>The \<open>start\<close> handler.\<close>

definition on_start :: "card \<Rightarrow> card \<times> effect list" where
  "on_start c = (c\<lparr>is_updating := True\<rparr>, [])"

text \<open>
  The \<open>change\<close> handler: clear the flag, store the value, read the input entity's state
  (a \<open>TypeError\<close> when the entity is gone), compute the output and issue the write.
\<close>

definition on_change :: "slider_view \<Rightarrow> card \<Rightarrow> real \<Rightarrow> card \<times> effect list" where
  "on_change sv c v =
     (let c1 = c\<lparr>is_updating := False, current_slider_value := v\<rparr> in
      case hass c1 of
        None \<Rightarrow> (c1, [Raise (TypeError ''this._hass'')])
      | Some h \<Rightarrow>
          (case h (sv_input_entity sv) of
             None \<Rightarrow> (c1, [Raise (TypeError ''states[input_entity]'')])
           | Some ent \<Rightarrow>
               (case config c1 of
                  None \<Rightarrow> (c1, [Raise (TypeError ''this.config'')])
                | Some cfg \<Rightarrow>
                    (c1, [Call (output_call (is_light_entity c1) (sv_output_entity sv)
                                 (calculateOutputValue cfg v (parse_float (state ent))))]))))"

section \<open>Steps and runs\<close>

text \<open>Slider events come from the mounted slider; with none mounted they cannot occur.\<close>

fun card_step :: "card \<Rightarrow> event \<Rightarrow> card \<times> effect list" where
  "card_step c (SetConfig cfg) = setConfig c cfg"
| "card_step c Connected = render c"
| "card_step c (SetHass h) = set_hass c h"
| "card_step c (Tick n) = tick c n"
| "card_step c SliderStart = (case shadow c of Slider sv \<Rightarrow> on_start c | _ \<Rightarrow> (c, []))"
| "card_step c (SliderUpdate v) = (case shadow c of Slider sv \<Rightarrow> on_update sv c v | _ \<Rightarrow> (c, []))"
| "card_step c (SliderChange v) = (case shadow c of Slider sv \<Rightarrow> on_change sv c v | _ \<Rightarrow> (c, []))"
| "card_step c LibLoaded = loadNoUiSlider_done c"

fun card_run :: "card \<Rightarrow> event list \<Rightarrow> card \<times> effect list" where
  "card_run c [] = (c, [])"
| "card_run c (e # es) =
     (case card_step c e of (c1, out1) \<Rightarrow> (case card_run c1 es of (c2, out2) \<Rightarrow> (c2, out1 @ out2)))"

inductive reachable :: "card \<Rightarrow> bool" where
  init: "reachable card_init"
| step: "reachable c \<Longrightarrow> reachable (fst (card_step c e))"

text \<open>Notifications from the state bus and the passing of time: the events the user
  does not make.\<close>

fun external_event :: "event \<Rightarrow> bool" where
  "external_event (SetHass _) = True"
| "external_event (Tick _) = True"
| "external_event _ = False"

text \<open>
  The invariant of reachable states: a stored configuration passed \<open>setConfig\<close>'s
  guards and \<open>isLightEntity\<close> agrees with it; a pending timer's deadline lies in
  the next \<open>debounce_delay\<close> milliseconds; a mounted slider or a template implies a
  configuration and a state bus; a slider is mounted only once the library is loaded, and
  a template waits for it only while it is not.
\<close>

definition card_inv :: "card \<Rightarrow> bool" where
  "card_inv c \<longleftrightarrow>
     (case config c of
        None \<Rightarrow> \<not> is_light_entity c
      | Some cfg \<Rightarrow> config_valid cfg
          \<and> is_light_entity c = starts_with (dflt (output_entity cfg) []) ''light.'')
     \<and> (case update_timeout c of None \<Rightarrow> True | Some d \<Rightarrow> now c < d \<and> d \<le> now c + debounce_delay)
     \<and> (case shadow c of
          Slider sv \<Rightarrow> config c \<noteq> None \<and> hass c \<noteq> None \<and> lib_loaded c
        | Template sv \<Rightarrow> config c \<noteq> None \<and> hass c \<noteq> None \<and> \<not> lib_loaded c
        | _ \<Rightarrow> True)"

text \<open>Fixtures for the witnesses: the input sensor reads \<open>40\<close>.\<close>

definition demo_states :: hass_states where
  "demo_states = [''sensor.level'' \<mapsto> \<lparr>state = ''40'', attributes = no_attrs\<rparr>]"

definition demo_view :: slider_view where
  "demo_view = slider_of example_config demo_states 0"

definition demo_card :: card where
  "demo_card = card_init\<lparr>config := Some example_config, is_light_entity := True,
     hass := Some demo_states, shadow := Slider demo_view, lib_loaded := True\<rparr>"

section \<open>Lemmas\<close>

lemma demo_view_entities [simp]:
  "sv_input_entity demo_view = ''sensor.level''" "sv_output_entity demo_view = ''light.lamp''"
  by (simp_all add: demo_view_def slider_of_def Let_def example_config_def empty_config_def)

lemma demo_card_fields [simp]:
  "shadow demo_card = Slider demo_view" "hass demo_card = Some demo_states"
  "config demo_card = Some example_config" "is_light_entity demo_card" "\<not> is_updating demo_card"
  by (simp_all add: demo_card_def card_init_def)

lemma parse_float_40: "parse_float ''40'' = Fin 40"
  by code_simp

text \<open>The mount changes only the shadow root: the \<open>update\<close> event reports the value the
  handle was created at.\<close>

lemma mount_slider_eq:
  "mount_slider c = c\<lparr>shadow := (case shadow c of
      Template sv \<Rightarrow> Slider ((noUiSlider_create sv (current_slider_value c))
                          \<lparr>sv_label := (math_round (current_slider_value c), sv_unit sv)\<rparr>)
    | v \<Rightarrow> v)\<rparr>"
  by (cases "shadow c") (simp_all add: mount_slider_def on_update_def noUiSlider_create_def)

lemmas handler_defs = setConfig_def render_def mount_slider_eq set_hass_def tick_def timer_fire_def
  on_start_def on_update_def on_change_def loadNoUiSlider_done_def

lemma mount_slider_Template [simp]:
  "mount_slider (c\<lparr>shadow := Template sv\<rparr>) =
    c\<lparr>shadow := Slider ((noUiSlider_create sv (current_slider_value c))
                          \<lparr>sv_label := (math_round (current_slider_value c), sv_unit sv)\<rparr>)\<rparr>"
  by (simp add: mount_slider_eq)

lemma card_run_append:
  "card_run c (xs @ ys) =
     (case card_run c xs of (c1, o1) \<Rightarrow> (case card_run c1 ys of (c2, o2) \<Rightarrow> (c2, o1 @ o2)))"
  by (induction xs arbitrary: c) (auto split: prod.splits)

lemma render_frame: "fst (render c) = c\<lparr>shadow := shadow (fst (render c))\<rparr>"
  by (auto simp: render_def Let_def split: option.splits)

lemma render_fields [card_simps]:
  "config (fst (render c)) = config c" "is_light_entity (fst (render c)) = is_light_entity c"
  "current_slider_value (fst (render c)) = current_slider_value c"
  "is_updating (fst (render c)) = is_updating c" "update_timeout (fst (render c)) = update_timeout c"
  "hass (fst (render c)) = hass c" "now (fst (render c)) = now c"
  "lib_loaded (fst (render c)) = lib_loaded c"
  by (subst render_frame; simp)+

lemma step_external_interacting:
  assumes "is_updating c" "external_event e"
  shows "shadow (fst (card_step c e)) = shadow c \<and> is_updating (fst (card_step c e))
    \<and> current_slider_value (fst (card_step c e)) = current_slider_value c \<and> snd (card_step c e) = []"
  using assms
  by (cases e) (auto simp: set_hass_def tick_def timer_fire_def Let_def split: option.splits)

text \<open>
  C2. The veto: while the user is dragging (\<open>isUpdating\<close>), any sequence of
  state-bus notifications and timer expiries leaves the view, the slider value and the
  flag as they are, and causes no render and no write.
\<close>

theorem card_run_interacting:
  assumes "is_updating c" "list_all external_event es"
  shows "shadow (fst (card_run c es)) = shadow c \<and> is_updating (fst (card_run c es))
    \<and> current_slider_value (fst (card_run c es)) = current_slider_value c \<and> snd (card_run c es) = []"
  using assms
proof (induction es arbitrary: c)
  case Nil
  then show ?case by simp
next
  case (Cons e es)
  obtain c1 o1 where s: "card_step c e = (c1, o1)" by fastforce
  from step_external_interacting [of c e] Cons.prems s
  have "shadow c1 = shadow c" "is_updating c1" "current_slider_value c1 = current_slider_value c" "o1 = []"
    by simp_all
  moreover from Cons.IH [of c1] Cons.prems \<open>is_updating c1\<close>
  have "shadow (fst (card_run c1 es)) = shadow c1 \<and> is_updating (fst (card_run c1 es))
    \<and> current_slider_value (fst (card_run c1 es)) = current_slider_value c1 \<and> snd (card_run c1 es) = []"
    by simp
  ultimately show ?case using s by (simp split: prod.splits)
qed

theorem card_run_interacting_witness:
  "shadow (fst (card_run (demo_card\<lparr>is_updating := True\<rparr>)
      [SetHass demo_states, Tick 100, SetHass Map.empty, Tick 500, Tick 500])) = shadow demo_card
   \<and> snd (card_run (demo_card\<lparr>is_updating := True\<rparr>)
      [SetHass demo_states, Tick 100, SetHass Map.empty, Tick 500, Tick 500]) = []"
  using card_run_interacting [of "demo_card\<lparr>is_updating := True\<rparr>"
      "[SetHass demo_states, Tick 100, SetHass Map.empty, Tick 500, Tick 500]"]
  by simp

lemma quiet_pair:
  assumes "\<not> is_updating c" "d < debounce_delay"
  shows "card_run c [SetHass h, Tick d] =
    (c\<lparr>hass := Some h, update_timeout := Some (now c + debounce_delay), now := now c + d\<rparr>, [])"
  using assms by (simp add: set_hass_def tick_def)

lemma quiet_pairs:
  assumes "\<not> is_updating c" "list_all (\<lambda>(h, d). d < debounce_delay) ps"
  shows "\<exists>c'. card_run c (concat (map (\<lambda>(h, d). [SetHass h, Tick d]) ps)) = (c', [])
    \<and> \<not> is_updating c' \<and> config c' = config c"
  using assms
proof (induction ps arbitrary: c)
  case Nil
  then show ?case by simp
next
  case (Cons p ps)
  obtain h d where p: "p = (h, d)" by fastforce
  let ?c1 = "c\<lparr>hass := Some h, update_timeout := Some (now c + debounce_delay), now := now c + d\<rparr>"
  from Cons.prems p have "card_run c [SetHass h, Tick d] = (?c1, [])"
    by (intro quiet_pair) simp_all
  moreover from Cons.IH [of ?c1] Cons.prems obtain c' where
    "card_run ?c1 (concat (map (\<lambda>(h, d). [SetHass h, Tick d]) ps)) = (c', [])"
    "\<not> is_updating c'" "config c' = config ?c1"
    by auto
  ultimately show ?case using p card_run_append [of c "[SetHass h, Tick d]"] by simp
qed

lemma fire_pair:
  assumes "\<not> is_updating c"
  shows "card_run c [SetHass h, Tick debounce_delay] =
    render (c\<lparr>hass := Some h, now := now c + debounce_delay, update_timeout := None\<rparr>)"
  using assms by (simp add: set_hass_def tick_def timer_fire_def split: prod.splits)

text \<open>
  C3. Debounce coalescing: from an idle, configured card, any number of notifications
  each followed by less than \<open>debounce_delay\<close> of quiet, then a last notification and
  \<open>debounce_delay\<close> of quiet, produce exactly one effect, a single render, made with
  the last notification's states.
\<close>

theorem debounce_coalesces:
  assumes "\<not> is_updating c" "config c \<noteq> None" "list_all (\<lambda>(h, d). d < debounce_delay) ps"
  shows "snd (card_run c (concat (map (\<lambda>(h, d). [SetHass h, Tick d]) ps) @ [SetHass h, Tick debounce_delay]))
      = [Render]
    \<and> hass (fst (card_run c (concat (map (\<lambda>(h, d). [SetHass h, Tick d]) ps) @ [SetHass h, Tick debounce_delay])))
      = Some h"
proof -
  from quiet_pairs [OF assms(1,3)] obtain c' where
    q: "card_run c (concat (map (\<lambda>(h, d). [SetHass h, Tick d]) ps)) = (c', [])"
    and "\<not> is_updating c'" "config c' = config c" by blast
  let ?c2 = "c'\<lparr>hass := Some h, now := now c' + debounce_delay, update_timeout := None\<rparr>"
  have f: "card_run c' [SetHass h, Tick debounce_delay] = render ?c2"
    using \<open>\<not> is_updating c'\<close> by (rule fire_pair)
  have "snd (render ?c2) = [Render]"
    using assms(2) \<open>config c' = config c\<close> by (auto simp: render_def Let_def split: option.splits)
  moreover have "hass (fst (render ?c2)) = Some h"
    by (simp add: card_simps)
  ultimately show ?thesis using q f card_run_append [of c] by (simp split: prod.splits)
qed

theorem debounce_coalesces_witness:
  "snd (card_run (card_init\<lparr>config := Some example_config\<rparr>)
      (concat (map (\<lambda>(h, d). [SetHass h, Tick d]) [(Map.empty, 100), (demo_states, 499)])
       @ [SetHass demo_states, Tick debounce_delay])) = [Render]"
  using debounce_coalesces [of "card_init\<lparr>config := Some example_config\<rparr>"
      "[(Map.empty, 100), (demo_states, 499)]" demo_states]
  by (simp add: card_init_def debounce_delay_def)

lemma card_inv_init: "card_inv card_init"
  by (simp add: card_inv_def card_init_def)

lemma render_inv: "card_inv c \<Longrightarrow> card_inv (fst (render c))"
  by (auto simp: card_inv_def render_def Let_def split: option.splits view.splits)

lemma setConfig_inv: "card_inv c \<Longrightarrow> card_inv (fst (setConfig c cfg))"
  by (auto simp: card_inv_def setConfig_def check_config_def config_valid_def
      split: option.splits view.splits if_splits)

lemma set_hass_inv: "card_inv c \<Longrightarrow> card_inv (fst (set_hass c h))"
  by (auto simp: card_inv_def set_hass_def debounce_delay_def split: option.splits view.splits)

lemma tick_inv: "card_inv c \<Longrightarrow> card_inv (fst (tick c n))"
proof -
  assume inv: "card_inv c"
  let ?c1 = "c\<lparr>now := now c + n\<rparr>"
  have inv1: "card_inv (?c1\<lparr>update_timeout := None\<rparr>)"
    using inv by (auto simp: card_inv_def split: option.splits view.splits)
  then have "card_inv (fst (timer_fire ?c1))"
    by (simp add: timer_fire_def Let_def render_inv)
  moreover have "update_timeout c = Some d \<Longrightarrow> \<not> d \<le> now c + n \<Longrightarrow> card_inv ?c1" for d
    using inv by (auto simp: card_inv_def split: option.splits view.splits)
  moreover have "update_timeout c = None \<Longrightarrow> card_inv ?c1"
    using inv by (auto simp: card_inv_def split: option.splits view.splits)
  ultimately show ?thesis by (auto simp: tick_def Let_def split: option.splits)
qed

lemma slider_events_inv:
  assumes "card_inv c" "shadow c = Slider sv"
  shows "card_inv (fst (on_start c)) \<and> card_inv (fst (on_update sv c v)) \<and> card_inv (fst (on_change sv c v))"
  using assms
  by (auto simp: card_inv_def on_start_def on_update_def on_change_def Let_def
      split: option.splits view.splits)

lemma lib_done_inv: "card_inv c \<Longrightarrow> card_inv (fst (loadNoUiSlider_done c))"
  by (auto simp: card_inv_def loadNoUiSlider_done_def mount_slider_eq split: option.splits view.splits)

lemma card_step_inv: "card_inv c \<Longrightarrow> card_inv (fst (card_step c e))"
  by (cases e) (auto simp: render_inv setConfig_inv set_hass_inv tick_inv slider_events_inv lib_done_inv
      split: view.splits)

text \<open>
  C4. Invariant of every reachable state: a stored configuration has passed
  \<open>setConfig\<close>'s guards and \<open>isLightEntity\<close> matches its \<open>output_entity\<close>;
  at most one timer is pending and its deadline lies within the next
  \<open>debounce_delay\<close>; a slider is mounted only with a configuration and a state bus.
\<close>

theorem reachable_card_inv: "reachable c \<Longrightarrow> card_inv c"
proof (induction rule: reachable.induct)
  case init
  show ?case by (rule card_inv_init)
next
  case (step c e)
  from step.IH show ?case by (rule card_step_inv)
qed

theorem reachable_card_inv_witness:
  "card_inv (fst (card_step (fst (card_step card_init (SetConfig example_config))) (SetHass demo_states)))"
proof -
  have "reachable (fst (card_step (fst (card_step card_init (SetConfig example_config))) (SetHass demo_states)))"
    by (intro reachable.step reachable.init)
  then show ?thesis by (rule reachable_card_inv)
qed

text \<open>
  C14. Resync: an idle configured card whose input entity is on the bus re-renders,
  one debounce delay after a notification, the slider built from the latest states at
  the position \<open>currentSliderValue\<close> it had: the override offset is kept. The slider
  is mounted at once when noUiSlider is loaded; otherwise the template waits for it.
\<close>

theorem resync_shows_latest_state:
  assumes "\<not> is_updating c" "config c = Some cfg" "h (dflt (input_entity cfg) ''undefined'') \<noteq> None"
  shows "card_run c [SetHass h, Tick debounce_delay] =
    (c\<lparr>hass := Some h, now := now c + debounce_delay, update_timeout := None,
        shadow := (if lib_loaded c then Slider else Template) (slider_of cfg h (current_slider_value c))\<rparr>,
     [Render])"
  unfolding fire_pair [OF assms(1)] using assms by (auto simp: render_def Let_def)

theorem resync_shows_latest_state_witness:
  "snd (card_run (card_init\<lparr>config := Some example_config, current_slider_value := 30, lib_loaded := True\<rparr>)
      [SetHass demo_states, Tick debounce_delay]) = [Render]
   \<and> shadow (fst (card_run (card_init\<lparr>config := Some example_config, current_slider_value := 30, lib_loaded := True\<rparr>)
      [SetHass demo_states, Tick debounce_delay])) = Slider (slider_of example_config demo_states 30)"
  using resync_shows_latest_state [of "card_init\<lparr>config := Some example_config, current_slider_value := 30, lib_loaded := True\<rparr>"
      example_config demo_states]
  by (simp add: card_init_def example_config_def empty_config_def demo_states_def)

text \<open>
  C25. Degraded display and recovery: a resync while the input entity is missing
  shows the placeholder; a later resync with the entity present mounts the slider again
  at the same position (noUiSlider being loaded).
\<close>

theorem missing_input_recovers:
  assumes "\<not> is_updating c" "config c = Some cfg" "lib_loaded c"
    and "h (dflt (input_entity cfg) ''undefined'') = None" "h' (dflt (input_entity cfg) ''undefined'') \<noteq> None"
  shows "shadow (fst (card_run c [SetHass h, Tick debounce_delay])) = NotFound
    \<and> shadow (fst (card_run c [SetHass h, Tick debounce_delay, SetHass h', Tick debounce_delay]))
        = Slider (slider_of cfg h' (current_slider_value c))"
proof -
  let ?c1 = "fst (card_run c [SetHass h, Tick debounce_delay])"
  have r1: "card_run c [SetHass h, Tick debounce_delay] =
      (c\<lparr>hass := Some h, now := now c + debounce_delay, update_timeout := None, shadow := NotFound\<rparr>, [Render])"
    unfolding fire_pair [OF assms(1)] using assms by (auto simp: render_def Let_def)
  then have "\<not> is_updating ?c1" "config ?c1 = Some cfg" "current_slider_value ?c1 = current_slider_value c"
    "lib_loaded ?c1"
    using assms by simp_all
  then have "shadow (fst (card_run ?c1 [SetHass h', Tick debounce_delay]))
      = Slider (slider_of cfg h' (current_slider_value c))"
    unfolding fire_pair [OF \<open>\<not> is_updating ?c1\<close>] using assms(5) \<open>lib_loaded ?c1\<close> by (auto simp: render_def Let_def)
  then show ?thesis
    using r1 card_run_append [of c "[SetHass h, Tick debounce_delay]" "[SetHass h', Tick debounce_delay]"]
    by (simp split: prod.splits)
qed

theorem missing_input_recovers_witness:
  "shadow (fst (card_run (card_init\<lparr>config := Some example_config, current_slider_value := 30, lib_loaded := True\<rparr>)
      [SetHass Map.empty, Tick debounce_delay, SetHass demo_states, Tick debounce_delay]))
   = Slider (slider_of example_config demo_states 30)"
  using missing_input_recovers [of "card_init\<lparr>config := Some example_config, current_slider_value := 30, lib_loaded := True\<rparr>"
      example_config Map.empty demo_states]
  by (simp add: card_init_def example_config_def empty_config_def demo_states_def)

text \<open>
  C16. Drag move: the \<open>update\<close> handler changes only local state (the slider value,
  the label \<open>Math.round(value) + unit\<close>, the handle and bar); it issues no write, leaves
  the flag, the state bus and the timer alone, and keeps the colour.
\<close>

theorem drag_update_local:
  assumes "shadow c = Slider sv"
  shows "snd (card_step c (SliderUpdate v)) = []
    \<and> current_slider_value (fst (card_step c (SliderUpdate v))) = v
    \<and> is_updating (fst (card_step c (SliderUpdate v))) = is_updating c
    \<and> hass (fst (card_step c (SliderUpdate v))) = hass c
    \<and> update_timeout (fst (card_step c (SliderUpdate v))) = update_timeout c
    \<and> (\<exists>sv'. shadow (fst (card_step c (SliderUpdate v))) = Slider sv' \<and> sv_value sv' = v
          \<and> sv_label sv' = (math_round v, sv_unit sv) \<and> sv_color sv' = sv_color sv)"
  using assms by (simp add: on_update_def)

theorem drag_update_local_witness:
  "snd (card_step demo_card (SliderUpdate 50)) = []
   \<and> current_slider_value (fst (card_step demo_card (SliderUpdate 50))) = 50"
  using drag_update_local [of demo_card demo_view 50] by simp

text \<open>
  C6. Drag end: the \<open>change\<close> handler clears the flag, stores the final value and
  issues exactly one write, the one \<open>output_call\<close> derives from
  \<open>calculateOutputValue\<close> of that value and \<open>parseFloat\<close> of the input entity's
  current state.
\<close>

theorem drag_end_commits:
  assumes "shadow c = Slider sv" "hass c = Some h" "h (sv_input_entity sv) = Some ent" "config c = Some cfg"
  shows "card_step c (SliderChange v) =
    (c\<lparr>is_updating := False, current_slider_value := v\<rparr>,
     [Call (output_call (is_light_entity c) (sv_output_entity sv)
              (calculateOutputValue cfg v (parse_float (state ent))))])"
  using assms by (simp add: on_change_def)

theorem drag_end_commits_witness:
  "card_step demo_card (SliderChange 50) =
     (demo_card\<lparr>is_updating := False, current_slider_value := 50\<rparr>,
      [Call (output_call True ''light.lamp''
        (calculateOutputValue example_config 50 (parse_float ''40'')))])"
  using drag_end_commits [of demo_card demo_view demo_states
      "\<lparr>state = ''40'', attributes = no_attrs\<rparr>" example_config 50]
  by (simp add: demo_states_def)

text \<open>
  C26. Drag end with the input entity gone: reading its state raises a
  \<open>TypeError\<close>, so no write is issued; the flag was cleared before, so the veto does not
  stay on.
\<close>

theorem drag_end_missing_input:
  assumes "shadow c = Slider sv" "hass c = Some h" "h (sv_input_entity sv) = None"
  shows "card_step c (SliderChange v) =
    (c\<lparr>is_updating := False, current_slider_value := v\<rparr>, [Raise (TypeError ''states[input_entity]'')])"
  using assms by (simp add: on_change_def)

theorem drag_end_missing_input_witness:
  "card_step (demo_card\<lparr>hass := Some Map.empty\<rparr>) (SliderChange 50) =
     (demo_card\<lparr>hass := Some Map.empty, is_updating := False, current_slider_value := 50\<rparr>,
      [Raise (TypeError ''states[input_entity]'')])"
  using drag_end_missing_input [of "demo_card\<lparr>hass := Some Map.empty\<rparr>" demo_view Map.empty 50]
  by simp

text \<open>
  C27. Configuration error: a configuration without a (non-empty)
  \<open>output_entity\<close> is refused with that error, checked before \<open>input_entity\<close>,
  and the card's state is left as it was.
\<close>

theorem setConfig_missing_output:
  assumes "\<not> js_truthy_str (output_entity cfg)"
  shows "card_step c (SetConfig cfg) = (c, [Raise MissingOutputEntity])"
  using assms by (simp add: setConfig_def check_config_def)

theorem setConfig_missing_output_witness:
  "card_step demo_card (SetConfig empty_config) = (demo_card, [Raise MissingOutputEntity])"
  using setConfig_missing_output [of empty_config demo_card] by (simp add: empty_config_def)

text \<open>
  C28. Accepted configuration: it is stored, \<open>isLightEntity\<close> is whether
  \<open>output_entity\<close> starts with \<open>light.\<close>, the slider value is reset to
  \<open>initial_slider_value || 0\<close>, nothing is rendered and nothing else changes.
\<close>

theorem setConfig_accepts:
  assumes "config_valid cfg" "output_entity cfg = Some oe"
  shows "card_step c (SetConfig cfg) =
    (c\<lparr>config := Some cfg, is_light_entity := starts_with oe ''light.'',
        current_slider_value := dflt (initial_slider_value cfg) 0\<rparr>, [])"
  using assms by (simp add: setConfig_def check_config_Inr_iff [symmetric])

theorem setConfig_accepts_witness:
  "card_step card_init (SetConfig example_config) =
     (card_init\<lparr>config := Some example_config, is_light_entity := True, current_slider_value := 0\<rparr>, [])"
  using setConfig_accepts [of example_config "''light.lamp''" card_init]
  by (simp add: example_config_def empty_config_def config_valid_def starts_with_def)

text \<open>
  C17. The veto covers only the timer: \<open>connectedCallback\<close> renders even while the
  user is dragging, replacing the slider under the gesture, and the flag stays set.
\<close>

theorem connected_renders_while_interacting:
  assumes "is_updating c" "config c = Some cfg" "hass c = Some h"
  shows "snd (card_step c Connected) = [Render] \<and> is_updating (fst (card_step c Connected))"
  using assms by (auto simp: render_def Let_def card_simps split: option.splits)

theorem connected_renders_while_interacting_witness:
  "snd (card_step (demo_card\<lparr>is_updating := True\<rparr>) Connected) = [Render]"
  using connected_renders_while_interacting [of "demo_card\<lparr>is_updating := True\<rparr>" example_config demo_states]
  by simp

end
