(* ===== verification/Lifecycle.thy ===== *)
theory Lifecycle
  imports SyncController
begin

text \<open>
  Properties of the card over its lifetime that depend on the order of events: the
  asynchronous mount of the slider (\<open>render\<close> suspended at
  \<open>await this.loadNoUiSlider()\<close> until the library's import completes), the debounce
  deadline, the service calls a run can issue, and what a drag does to a pending refresh.
  The observations \<open>calls\<close>, \<open>mounted\<close> and \<open>waiting\<close> read the effects and the shadow
  root; everything else is the machine of \<open>SyncController\<close>.
\<close>

section \<open>Observations\<close>

text \<open>The service calls among a list of effects, in order.\<close>

fun calls :: "effect list \<Rightarrow> service_call list" where
  "calls [] = []"
| "calls (Call s # out) = s # calls out"
| "calls (_ # out) = calls out"

text \<open>A noUiSlider is mounted in the shadow root: the user can drag it.\<close>

definition mounted :: "card \<Rightarrow> bool" where
  "mounted c = (case shadow c of Slider _ \<Rightarrow> True | _ \<Rightarrow> False)"

text \<open>A \<open>render\<close> waits for the library with its template in the shadow root.\<close>

definition waiting :: "card \<Rightarrow> bool" where
  "waiting c = (case shadow c of Template _ \<Rightarrow> True | _ \<Rightarrow> False)"

section \<open>Lemmas\<close>

lemma calls_append [simp]: "calls (xs @ ys) = calls xs @ calls ys"
  by (induction xs rule: calls.induct) auto

section \<open>The asynchronous mount\<close>

text \<open>
  C7. No write before the library: on a page where noUiSlider is not loaded and no
  slider is mounted, no sequence of events in which the library's import does not
  complete issues a service call; the card shows at most the template, and the
  library stays unloaded.
\<close>

theorem no_write_before_library:
  assumes "\<not> lib_loaded c" "\<not> mounted c" "LibLoaded \<notin> set es"
  shows "calls (snd (card_run c es)) = [] \<and> \<not> mounted (fst (card_run c es))"
proof -
  have "calls (snd (card_run c es)) = [] \<and> \<not> mounted (fst (card_run c es))
    \<and> \<not> lib_loaded (fst (card_run c es))"
    using assms
  proof (induction es arbitrary: c)
    case Nil
    then show ?case by simp
  next
    case (Cons e es)
    obtain c1 o1 where s: "card_step c e = (c1, o1)" by fastforce
    from Cons.prems have "calls (snd (card_step c e)) = [] \<and> \<not> mounted (fst (card_step c e))
        \<and> \<not> lib_loaded (fst (card_step c e))"
      by (cases e) (auto simp: mounted_def handler_defs Let_def split: option.splits view.splits sum.splits)
    with s have "calls o1 = [] \<and> \<not> mounted c1 \<and> \<not> lib_loaded c1" by simp
    with Cons.IH [of c1] Cons.prems s show ?case by (cases "card_run c1 es") simp
  qed
  then show ?thesis by simp
qed

theorem no_write_before_library_witness:
  "calls (snd (card_run card_init
     [SetConfig example_config, SetHass demo_states, Connected, SliderStart, SliderChange 50,
      Tick debounce_delay, SliderChange 100])) = []"
proof -
  have "\<not> lib_loaded card_init" "\<not> mounted card_init"
    by (simp_all add: card_init_def mounted_def)
  then show ?thesis
    using no_write_before_library [of card_init
      "[SetConfig example_config, SetHass demo_states, Connected, SliderStart, SliderChange 50,
        Tick debounce_delay, SliderChange 100]"]
    by simp
qed

text \<open>
  C15. The import completes a suspended render: a template built from a configuration
  and states at some value is mounted as exactly the view a render with that
  configuration and those states at the current \<open>currentSliderValue\<close> builds. The handle
  and the bar are set at that value by \<open>noUiSlider.create\<close>, and the label by the
  \<open>update\<close> event that noUiSlider fires when the handler is bound, so all three agree even
  when the value changed while the render waited. \<open>window.noUiSlider\<close> is set, and
  nothing is written.
\<close>

theorem import_mounts_template:
  assumes "shadow c = Template (slider_of cfg h v)"
  shows "card_step c LibLoaded =
    (c\<lparr>lib_loaded := True, shadow := Slider (slider_of cfg h (current_slider_value c))\<rparr>, [])"
  using assms by (simp add: loadNoUiSlider_done_def mount_slider_eq)

theorem import_mounts_template_witness:
  "shadow (fst (card_step (fst (card_run card_init
      [SetConfig example_config, SetHass demo_states, Connected,
       SetConfig (example_config\<lparr>initial_slider_value := Some 40\<rparr>)])) LibLoaded))
     = Slider (slider_of example_config demo_states 40)"
proof -
  let ?c = "fst (card_run card_init
      [SetConfig example_config, SetHass demo_states, Connected,
       SetConfig (example_config\<lparr>initial_slider_value := Some 40\<rparr>)])"
  have t: "shadow ?c = Template (slider_of example_config demo_states 0)"
    and v: "current_slider_value ?c = 40"
    by (simp_all add: handler_defs check_config_def card_init_def example_config_def empty_config_def
        demo_states_def)
  have "card_step ?c LibLoaded = (?c\<lparr>lib_loaded := True,
      shadow := Slider (slider_of example_config demo_states (current_slider_value ?c))\<rparr>, [])"
    by (rule import_mounts_template [OF t])
  then show ?thesis unfolding v by (simp del: card_run.simps)
qed

text \<open>
  C8. Loading order does not matter when the import completes at once: on a page
  without noUiSlider and with no template waiting, any event followed by the completion
  of the import ends in the same state, with the same effects, as that event on a page
  where noUiSlider was already loaded.
\<close>

theorem import_at_once_equiv:
  assumes "\<not> lib_loaded c" "\<not> waiting c" "e \<noteq> LibLoaded"
  shows "card_run c [e, LibLoaded] = card_run (c\<lparr>lib_loaded := True\<rparr>) [e]"
  using assms
  by (cases e) (auto simp: waiting_def handler_defs Let_def split: option.splits view.splits sum.splits)

theorem import_at_once_equiv_witness:
  "card_run (fst (card_run card_init [SetConfig example_config, SetHass demo_states])) [Connected, LibLoaded]
   = card_run ((fst (card_run card_init [SetConfig example_config, SetHass demo_states]))\<lparr>lib_loaded := True\<rparr>)
       [Connected]"
proof -
  let ?c = "fst (card_run card_init [SetConfig example_config, SetHass demo_states])"
  have "\<not> lib_loaded ?c" "\<not> waiting ?c"
    by (simp_all add: handler_defs check_config_def card_init_def example_config_def empty_config_def
        waiting_def)
  then show ?thesis using import_at_once_equiv [of ?c Connected] by simp
qed

section \<open>The debounce deadline\<close>

text \<open>
  C9. A pending refresh is never postponed: in a state satisfying the invariant of
  reachable states, with a timer pending and no drag in progress, any quiet period of at
  least \<open>debounce_delay\<close> fires the timer, which clears itself and re-renders.
\<close>

theorem pending_refresh_fires:
  assumes "card_inv c" "update_timeout c = Some d" "\<not> is_updating c" "debounce_delay \<le> n"
  shows "card_step c (Tick n) = render (c\<lparr>now := now c + n, update_timeout := None\<rparr>)"
proof -
  have "d \<le> now c + n" using assms(1,2,4) by (simp add: card_inv_def)
  then show ?thesis using assms(2,3) by (simp add: tick_def timer_fire_def)
qed

theorem pending_refresh_fires_witness:
  "snd (card_step (fst (card_step demo_card (SetHass demo_states))) (Tick 600)) = [Render]"
proof -
  let ?c = "fst (card_step demo_card (SetHass demo_states))"
  have i: "card_inv ?c" "update_timeout ?c = Some 500" "\<not> is_updating ?c"
    by (simp_all add: set_hass_def card_inv_def demo_card_def card_init_def debounce_delay_def
        example_config_def empty_config_def config_valid_def starts_with_def demo_view_def slider_of_def Let_def)
  have "card_step ?c (Tick 600) = render (?c\<lparr>now := now ?c + 600, update_timeout := None\<rparr>)"
    using pending_refresh_fires [OF i] by (simp add: debounce_delay_def)
  moreover have "snd (render (?c\<lparr>now := now ?c + 600, update_timeout := None\<rparr>)) = [Render]"
    by (simp add: render_def Let_def set_hass_def demo_states_def example_config_def empty_config_def)
  ultimately show ?thesis by simp
qed

section \<open>The writes\<close>

lemma output_call_brightness:
  assumes "output_call isLight oe v = LightTurnOn oe' b"
  shows "b = NaN \<or> (\<exists>x. b = Fin x \<and> 0 < x \<and> x \<le> 100)"
  using assms by (cases v) (auto simp: output_call_def split: if_splits)

lemma step_brightness:
  assumes "Call (LightTurnOn oe b) \<in> set (snd (card_step c e))"
  shows "b = NaN \<or> (\<exists>x. b = Fin x \<and> 0 < x \<and> x \<le> 100)"
  using assms
  by (cases e) (auto simp: handler_defs Let_def split: option.splits view.splits sum.splits if_splits
      dest: sym [THEN output_call_brightness])

text \<open>
  C19. The brightness a light receives: in every run from every state, each
  \<open>light.turn_on\<close> the card issues carries a \<open>brightness_pct\<close> that is either a number in
  \<open>(0, 100]\<close> or \<open>NaN\<close>; values at or below 0, including \<open>-Infinity\<close>, turn the light off
  instead, and \<open>+Infinity\<close> is clamped to 100.
\<close>

theorem light_brightness_pct_range:
  assumes "Call (LightTurnOn oe b) \<in> set (snd (card_run c es))"
  shows "b = NaN \<or> (\<exists>x. b = Fin x \<and> 0 < x \<and> x \<le> 100)"
  using assms
proof (induction es arbitrary: c)
  case Nil
  then show ?case by simp
next
  case (Cons e es)
  obtain c1 o1 where s: "card_step c e = (c1, o1)" by fastforce
  show ?case
  proof (cases "Call (LightTurnOn oe b) \<in> set o1")
    case True
    then show ?thesis using step_brightness [of oe b c e] s by simp
  next
    case False
    with Cons.prems s have "Call (LightTurnOn oe b) \<in> set (snd (card_run c1 es))"
      by (cases "card_run c1 es") simp
    then show ?thesis by (rule Cons.IH)
  qed
qed

theorem light_brightness_pct_range_witness:
  "card_run demo_card [SliderStart, SliderChange 50]
     = (demo_card\<lparr>is_updating := False, current_slider_value := 50\<rparr>, [Call (LightTurnOn ''light.lamp'' (Fin 70))])
   \<and> (Fin 70 = NaN \<or> (\<exists>x. Fin 70 = Fin x \<and> 0 < x \<and> x \<le> (100::real)))"
proof -
  have r: "card_run demo_card [SliderStart, SliderChange 50]
     = (demo_card\<lparr>is_updating := False, current_slider_value := 50\<rparr>, [Call (LightTurnOn ''light.lamp'' (Fin 70))])"
    by (simp add: on_start_def on_change_def demo_states_def calculateOutputValue_def output_call_def
        example_config_def empty_config_def parse_float_40 js_simps)
  have "Call (LightTurnOn ''light.lamp'' (Fin 70)) \<in> set (snd (card_run demo_card [SliderStart, SliderChange 50]))"
    unfolding r by simp
  then show ?thesis using r light_brightness_pct_range [of "''light.lamp''" "Fin 70" demo_card] by simp
qed

section \<open>A notification during a drag\<close>

lemma ticks_idle:
  assumes "update_timeout c = None"
  shows "card_run c (map Tick ns) = (c\<lparr>now := now c + sum_list ns\<rparr>, [])"
  using assms
proof (induction ns arbitrary: c)
  case Nil
  then show ?case by simp
next
  case (Cons n ns)
  from Cons.prems have "tick c n = (c\<lparr>now := now c + n\<rparr>, [])" by (simp add: tick_def)
  with Cons.IH [of "c\<lparr>now := now c + n\<rparr>"] Cons.prems show ?case by (simp add: add.assoc)
qed

lemma drag_notify_release:
  assumes "is_updating c" "shadow c = Slider sv"
  shows "Render \<notin> set (snd (card_run c [SetHass h, Tick debounce_delay, SliderChange v]))
    \<and> update_timeout (fst (card_run c [SetHass h, Tick debounce_delay, SliderChange v])) = None
    \<and> shadow (fst (card_run c [SetHass h, Tick debounce_delay, SliderChange v])) = Slider sv"
  using assms by (auto simp: handler_defs Let_def split: option.splits)

text \<open>
  C18. A notification that arrives during a drag is dropped: its timer fires while the
  flag is set, is vetoed and cleared, and nothing re-schedules it. After the drag ends,
  however long the card then stays quiet, it renders nothing and keeps showing the view
  (colour included) from before the drag, until the next notification.
\<close>

theorem drag_drops_refresh:
  assumes "is_updating c" "shadow c = Slider sv"
  shows "Render \<notin> set (snd (card_run c ([SetHass h, Tick debounce_delay, SliderChange v] @ map Tick ns)))
    \<and> shadow (fst (card_run c ([SetHass h, Tick debounce_delay, SliderChange v] @ map Tick ns))) = Slider sv"
proof -
  obtain c1 o1 where r: "card_run c [SetHass h, Tick debounce_delay, SliderChange v] = (c1, o1)"
    by fastforce
  with drag_notify_release [OF assms, of h v]
  have "Render \<notin> set o1" "update_timeout c1 = None" "shadow c1 = Slider sv" by simp_all
  then show ?thesis
    using r ticks_idle [of c1 ns] card_run_append [of c "[SetHass h, Tick debounce_delay, SliderChange v]"]
    by simp
qed

theorem drag_drops_refresh_witness:
  "Render \<notin> set (snd (card_run (demo_card\<lparr>is_updating := True\<rparr>)
      ([SetHass Map.empty, Tick debounce_delay, SliderChange 50] @ map Tick [500, 1000, 60000])))"
  using drag_drops_refresh [of "demo_card\<lparr>is_updating := True\<rparr>" demo_view Map.empty 50 "[500, 1000, 60000]"]
  by simp

end
