(* ===== verification/Spec2Isabelle.thy ===== *)
theory Spec2Isabelle
  imports Lifecycle
begin

text \<open>
  \<^bold>\<open>Weighted override slider card: a verification development.\<close>

  The program is one custom element, \<open>WeightedOverrideSliderCard\<close>, in
  \<open>src/python_scripts/weighted-override-slider-card.js\<close>, a Home Assistant dashboard
  card. The user drags a bipolar slider; on release the card moves the value of an input
  entity towards \<open>input_max\<close> (slider positive) or \<open>input_min\<close> (negative) by the
  fraction \<open>|slider| / slider_max\<close> and writes the result to a light (brightness, or off)
  or to an \<open>input_number\<close>. State-bus updates re-render the card through a 500 ms
  debounce timer, vetoed while a drag is in progress (\<open>isUpdating\<close>). The slider's
  colour follows an optional colour entity. \<open>render\<close> is asynchronous: it writes the
  template, awaits \<open>loadNoUiSlider()\<close> (a CDN import the first time on a page), and only
  then creates the slider and installs its handlers.

  \<^bold>\<open>Theories and what they model.\<close>
  \<^item> \<open>Prelude\<close>: rule collections (\<open>js_simps\<close>, \<open>card_simps\<close>), \<open>Math.round\<close> on
    finite numbers (\<open>math_round\<close>), \<open>startsWith\<close>, \<open>slice\<close>, the
    truthiness test and \<open>||\<close> on optional strings, destructuring defaults.
  \<^item> \<open>JsRuntime\<close>: JavaScript numbers as \<open>jsnum\<close> (finite reals, \<open>\<plusminus>Infinity\<close>,
    \<open>NaN\<close>) with \<open>+ - * /\<close>, \<open>Math.abs/min/max/round\<close>, the comparisons, \<open>%\<close>,
    \<open>ToNumber(undefined)\<close>; \<open>parseFloat\<close> and \<open>parseInt(_, 16)\<close> on strings.
  \<^item> \<open>Hass\<close>: the state bus interface: \<open>hass.states\<close> (entity id to state string and
    attributes) and the three \<open>callService\<close> writes.
  \<^item> \<open>Config\<close>: \<open>this.config\<close> as a record of optional fields, the guards of
    \<open>setConfig\<close> (lines 11-12) as \<open>check_config\<close>, the destructuring defaults of
    \<open>render\<close> (lines 118-134) as \<open>render_settings\<close>.
  \<^item> \<open>ValueMapper\<close>: \<open>calculateOutputValue\<close> (lines 106-115) over \<open>jsnum\<close>, the write of
    the \<open>change\<close> handler (lines 294-308) as \<open>output_call\<close>, and the abstract contract
    \<open>override_spec\<close>.
  \<^item> \<open>ColorDeriver\<close>: \<open>getLightColor\<close> (lines 30-75) with its helpers
    (\<open>brightness_factor\<close>, \<open>attrs_color\<close>, \<open>temp_red_blue\<close>, \<open>fallback_rgb\<close>),
    \<open>hslToRgb\<close> (77-96), \<open>hexToRgb\<close> (98-104).
  \<^item> \<open>Render\<close>: what the shadow root shows: the record \<open>slider_view\<close> of every value the
    template and \<open>noUiSlider.create\<close> take, the datatype \<open>view\<close> (empty, placeholder,
    \<open>Template\<close> awaiting the library, mounted \<open>Slider\<close>), \<open>slider_of\<close> (the template,
    lines 142-248), \<open>noUiSlider_create\<close> (lines 253-277) and \<open>updateConnectElement\<close>
    (264-275).
  \<^item> \<open>SyncController\<close>: the instance as the record \<open>card\<close> (constructor, lines 2-8),
    plus a millisecond clock and the page's \<open>window.noUiSlider\<close> (\<open>lib_loaded\<close>);
    \<open>setConfig\<close>, \<open>render\<close> up to its \<open>await\<close> and, when the library is loaded, its
    continuation \<open>mount_slider\<close>; the \<open>hass\<close> setter (22-28) as \<open>set_hass\<close>, its timer
    as \<open>tick\<close>/\<open>timer_fire\<close>; the completion of the import (\<open>loadNoUiSlider\<close>,
    312-317) as \<open>loadNoUiSlider_done\<close>, which resumes the suspended \<open>render\<close>; the slider
    handlers \<open>on_start\<close>, \<open>on_update\<close>, \<open>on_change\<close> (279-309). \<open>card_step\<close>
    dispatches one event (\<open>connectedCallback\<close> is \<open>Connected\<close>, the import's completion
    is \<open>LibLoaded\<close>), \<open>card_run\<close> runs a list, and \<open>reachable\<close> is the inductive set of
    states reachable from \<open>card_init\<close>.
  \<^item> \<open>Lifecycle\<close>: properties that depend on the order of events: the asynchronous mount,
    the debounce deadline, the writes a run can issue, a notification during a drag.
  \<^item> This theory: the end-to-end interaction (\<open>interaction\<close>: configure, receive
    states, connect, the import completes, drag, release) across all components.

  \<^bold>\<open>Effects.\<close> Every handler returns the new state and a list of effects: \<open>Render\<close>
  (the shadow root was rewritten), \<open>Call\<close> (a service call), \<open>Raise\<close> (an exception
  ends the handler, or rejects \<open>render\<close>'s promise; the writes made before it stay, as in
  JavaScript).

  \<^bold>\<open>What the lemmas show.\<close> The claims are numbered by importance, C1 first. Value
  mapper: refinement of \<open>override_spec\<close> on finite inputs, identity at 0, exact bounds at
  \<open>\<plusminus>slider_max\<close>, range preservation, and the error paths (\<open>undefined\<close> bounds and
  unparseable inputs give \<open>NaN\<close>, which the light write turns into \<open>turn_on\<close> with
  \<open>NaN\<close>). Colour deriver: each rule of the precedence chain, the brightness factor, the
  loss of hue in \<open>hslToRgb\<close> at lightness 100, channels within \<open>[0, 255]\<close>. Controller:
  the veto (no render, no write, no change while dragging, for any number of
  notifications), debounce coalescing (one render per burst), the invariant of reachable
  states (proved by rule induction over \<open>reachable\<close>), resync keeping the slider
  position, recovery from a missing input entity, the drag handlers' effects and errors,
  \<open>setConfig\<close>'s guards, the connect bar's geometry. Lifecycle: no write can happen
  before the library is loaded; an import completing at once is equivalent to a page
  that had the library; the import mounts the waiting template as exactly the view a
  render at the slider value of that moment builds; a pending refresh fires within any
  500 ms of quiet; every brightness written is in \<open>(0, 100]\<close> or \<open>NaN\<close>; a notification during a drag is dropped.

  \<^bold>\<open>Bounds, time and scheduling.\<close> No loop of the source needs fuel: every handler is a
  non-recursive function and runs are structural recursion on the event list. Time is a
  \<open>nat\<close> clock advanced by \<open>Tick n\<close>; at most one timer is pending (the setter always
  clears the previous one), so one tick fires at most one callback. The delay is the
  source's 500 ms (\<open>debounce_delay\<close>). Each event is one task of the browser's event
  loop; microtasks run to completion between events, so with \<open>window.noUiSlider\<close> set
  the continuation of \<open>render\<close> runs within the same step, and without it the
  continuation waits for the event \<open>LibLoaded\<close>. Several renders may wait on the same
  import; only the latest one's template is still in the shadow root, and the others
  create their sliders in detached elements, which changes nothing that is shown.
  Binding the \<open>update\<close> handler makes noUiSlider call it immediately; the mount
  (\<open>mount_slider\<close>) runs the card's own handler \<open>on_update\<close> with the handle's position,
  which rewrites the label.

  \<^bold>\<open>Not modelled.\<close> Floating-point rounding and signed zero (finite numbers are exact
  reals); the CSS text and DOM nodes of the template (represented by the values they
  interpolate); the network fetch of the library (a failed import is a run in which
  \<open>LibLoaded\<close> never occurs); noUiSlider's own clamping, step snapping and two-decimal
  formatting of positions (slider events carry the value it reports, and the \<open>update\<close>
  event fired on binding reports the value the handle was created at); events from a
  slider that a later render detached mid-drag (slider events come from the mounted
  slider only); \<open>getCardSize\<close> (a constant layout hint)
  and \<open>customElements.define\<close>.
\<close>

definition interaction :: "card_config \<Rightarrow> hass_states \<Rightarrow> real \<Rightarrow> event list" where
  "interaction cfg h v =
     [SetConfig cfg, SetHass h, Connected, LibLoaded, SliderStart, SliderUpdate v, SliderChange v]"

section \<open>Lemmas\<close>

text \<open>The run of an interaction, for any valid configuration whose input entity exists.\<close>

lemma interaction_run:
  assumes "config_valid cfg" "output_entity cfg = Some oe" "input_entity cfg = Some ie"
    and "h ie = Some ent"
  shows "snd (card_run card_init (interaction cfg h v)) =
      [Render, Call (output_call (starts_with oe ''light.'') oe (calculateOutputValue cfg v (parse_float (state ent))))]"
    and "shadow (fst (card_run card_init (take 4 (interaction cfg h v)))) =
      Slider (slider_of cfg h (dflt (initial_slider_value cfg) 0))"
proof -
  have "check_config cfg = Inr ()"
    using assms(1) by (simp add: check_config_Inr_iff)
  then show "snd (card_run card_init (interaction cfg h v)) =
      [Render, Call (output_call (starts_with oe ''light.'') oe (calculateOutputValue cfg v (parse_float (state ent))))]"
    and "shadow (fst (card_run card_init (take 4 (interaction cfg h v)))) =
      Slider (slider_of cfg h (dflt (initial_slider_value cfg) 0))"
    using assms(2-4) by (simp_all add: interaction_def handler_defs card_init_def)
qed

lemma interaction_commit:
  assumes "config_valid cfg" "output_entity cfg = Some oe" "input_entity cfg = Some ie"
    and "h ie = Some ent" "parse_float (state ent) = Fin x"
    and "slider_max cfg = Some m" "m \<noteq> 0" "input_min cfg = Some lo" "input_max cfg = Some hi"
  shows "snd (card_run card_init (interaction cfg h v)) =
    [Render, Call (output_call (starts_with oe ''light.'') oe (Fin (override_spec m lo hi v x)))]"
proof -
  have "calculateOutputValue cfg v (Fin x) = Fin (override_spec m lo hi v x)"
    using assms(6-9) by (rule calculateOutputValue_Fin)
  then show ?thesis using interaction_run(1) [where h = h and ie = ie, OF assms(1-4)] assms(5) by simp
qed

section \<open>End-to-end properties\<close>

text \<open>
  C5. The whole interaction: after \<open>setConfig\<close> with a valid configuration, a state
  update whose input entity parses to a number \<open>x\<close>, mounting, and a drag to \<open>v\<close> and
  release, the card has rendered once and issued exactly one write: the write for the
  abstract override \<open>override_spec slider_max input_min input_max v x\<close>, to a light when
  \<open>output_entity\<close> starts with \<open>light.\<close> and to an \<open>input_number\<close> otherwise. The
  witness is the spec's scenario: range \<open>[-100, 100]\<close>, input range \<open>[0, 100]\<close>, input
  \<open>40\<close>, release at \<open>50\<close>, which writes \<open>70\<close> to either kind of target.
\<close>

theorem interaction_writes_override:
  assumes "config_valid cfg" "output_entity cfg = Some oe" "input_entity cfg = Some ie"
    and "h ie = Some ent" "parse_float (state ent) = Fin x"
    and "slider_max cfg = Some m" "m \<noteq> 0" "input_min cfg = Some lo" "input_max cfg = Some hi"
  shows "snd (card_run card_init (interaction cfg h v)) =
    [Render, Call (output_call (starts_with oe ''light.'') oe (Fin (override_spec m lo hi v x)))]"
  using assms by (rule interaction_commit)

theorem interaction_writes_override_witness:
  "snd (card_run card_init (interaction example_config demo_states 50)) =
     [Render, Call (LightTurnOn ''light.lamp'' (Fin 70))]
   \<and> snd (card_run card_init
       (interaction (example_config\<lparr>output_entity := Some ''input_number.target''\<rparr>) demo_states 50)) =
     [Render, Call (InputNumberSetValue ''input_number.target'' (Fin 70))]"
proof -
  have c: "config_valid example_config"
    "config_valid (example_config\<lparr>output_entity := Some ''input_number.target''\<rparr>)"
    by (simp_all add: config_valid_def example_config_def empty_config_def)
  have o: "override_spec 100 0 100 50 40 = 70" by (simp add: override_spec_def)
  show ?thesis
    using interaction_writes_override [OF c(1), of "''light.lamp''" "''sensor.level''" demo_states
        "\<lparr>state = ''40'', attributes = no_attrs\<rparr>" 40 100 0 100 50]
      interaction_writes_override [OF c(2), of "''input_number.target''" "''sensor.level''" demo_states
        "\<lparr>state = ''40'', attributes = no_attrs\<rparr>" 40 100 0 100 50]
    by (simp add: example_config_def empty_config_def demo_states_def parse_float_40 o
        output_call_def starts_with_def)
qed

text \<open>
  C21. The default that only \<open>render\<close> applies: with \<open>slider_max\<close> left out of a
  valid configuration, the slider is mounted with range maximum \<open>100\<close>, but releasing
  it at any position other than 0 writes \<open>NaN\<close>: a light is turned on with brightness
  \<open>NaN\<close>, an \<open>input_number\<close> is set to \<open>NaN\<close>.
\<close>

theorem default_slider_max_writes_NaN:
  assumes "config_valid cfg" "output_entity cfg = Some oe" "input_entity cfg = Some ie"
    and "h ie = Some ent" "slider_max cfg = None" "v \<noteq> 0"
  shows "snd (card_run card_init (interaction cfg h v)) =
      [Render, Call (output_call (starts_with oe ''light.'') oe NaN)]
    \<and> (\<exists>sv. shadow (fst (card_run card_init (take 4 (interaction cfg h v)))) = Slider sv
        \<and> sv_max sv = 100)"
  using interaction_run [where h = h and ie = ie and v = v, OF assms(1-4)] calculateOutputValue_no_slider_max [OF assms(5,6)]
  using assms(5) by simp

theorem default_slider_max_writes_NaN_witness:
  "snd (card_run card_init (interaction (example_config\<lparr>slider_max := None\<rparr>) demo_states 50)) =
     [Render, Call (LightTurnOn ''light.lamp'' NaN)]"
proof -
  have "config_valid (example_config\<lparr>slider_max := None\<rparr>)"
    by (simp add: config_valid_def example_config_def empty_config_def)
  then show ?thesis
    using default_slider_max_writes_NaN [of "example_config\<lparr>slider_max := None\<rparr>" "''light.lamp''"
        "''sensor.level''" demo_states "\<lparr>state = ''40'', attributes = no_attrs\<rparr>" 50]
    by (simp add: example_config_def empty_config_def demo_states_def output_call_def starts_with_def)
qed

end
